theory Spec2Isabelle
  imports Main
begin

section \<open>JavaScript values\<close>

text \<open>
  The configuration document is the object \<^verbatim>\<open>fs.readJSON\<close> produced from
  \<^verbatim>\<open>.changeset/config.json\<close>. Its fields hold arbitrary JSON values, whatever the
  type \<^verbatim>\<open>WrittenConfig\<close> declares: the checks of \<open>parse\<close> exist for the values
  that are not of that type. A property that is absent reads as \<^verbatim>\<open>undefined\<close>.
  \<open>parse\<close> inspects numbers only through \<^verbatim>\<open>typeof\<close>, strict equality with
  non-numbers and truthiness, so a number is modelled by an integer (zero is the
  falsy one). An object is the list of its own properties, each key once.
\<close>

datatype json =
    JUndefined
  | JNull
  | JBool bool
  | JNum int
  | JStr string
  | JArr "json list"
  | JObj "(string \<times> json) list"

text \<open>\<^verbatim>\<open>if (v)\<close>: JavaScript's ToBoolean.\<close>

fun truthy :: "json \<Rightarrow> bool" where
  "truthy JUndefined = False"
| "truthy JNull = False"
| "truthy (JBool b) = b"
| "truthy (JNum n) = (n \<noteq> 0)"
| "truthy (JStr s) = (s \<noteq> [])"
| "truthy (JArr xs) = True"
| "truthy (JObj kvs) = True"

text \<open>\<^verbatim>\<open>typeof v === "string"\<close>, \<^verbatim>\<open>typeof v === "boolean"\<close>, \<^verbatim>\<open>Array.isArray(v)\<close>.\<close>

fun typeof_string :: "json \<Rightarrow> bool" where
  "typeof_string (JStr s) = True"
| "typeof_string _ = False"

fun typeof_boolean :: "json \<Rightarrow> bool" where
  "typeof_boolean (JBool b) = True"
| "typeof_boolean _ = False"

fun isArray :: "json \<Rightarrow> bool" where
  "isArray (JArr xs) = True"
| "isArray _ = False"

text \<open>The elements of an array; read only where \<open>isArray\<close> has been tested.\<close>

fun elems :: "json \<Rightarrow> json list" where
  "elems (JArr xs) = xs"
| "elems _ = []"

text \<open>
  \<^verbatim>\<open>Array.isArray(v) && v.every(x => typeof x === "string")\<close>, together with the
  strings the branch guarded by that test then iterates over: \<open>Some names\<close> exactly
  when the test holds.
\<close>

fun strings_of :: "json list \<Rightarrow> string list option" where
  "strings_of [] = Some []"
| "strings_of (JStr s # xs) = map_option ((#) s) (strings_of xs)"
| "strings_of (_ # xs) = None"

fun string_array :: "json \<Rightarrow> string list option" where
  "string_array (JArr xs) = strings_of xs"
| "string_array _ = None"

text \<open>
  \<^verbatim>\<open>Array.isArray(v) && v.every(arr => Array.isArray(arr) && arr.every(x => typeof x === "string"))\<close>
\<close>

fun string_arrays_of :: "json list \<Rightarrow> string list list option" where
  "string_arrays_of [] = Some []"
| "string_arrays_of (x # xs) =
     (case string_array x of
        None \<Rightarrow> None
      | Some names \<Rightarrow> map_option ((#) names) (string_arrays_of xs))"

fun string_array_array :: "json \<Rightarrow> string list list option" where
  "string_array_array (JArr xs) = string_arrays_of xs"
| "string_array_array _ = None"

text \<open>
  What \<open>parse\<close> can throw: its own aggregated \<^verbatim>\<open>ValidationError\<close>, and the
  \<^verbatim>\<open>TypeError\<close> of the runtime when a property of \<^verbatim>\<open>null\<close> or
  \<^verbatim>\<open>undefined\<close> is read.
\<close>

datatype error = ValidationError string | TypeError

text \<open>
  Reading property \<open>k\<close> of \<open>v\<close> (also by destructuring). The two names \<open>parse\<close> reads
  this way are own properties of objects only: on a boolean, number, string or array
  they read as \<^verbatim>\<open>undefined\<close>.
\<close>

fun get_prop :: "json \<Rightarrow> string \<Rightarrow> error + json" where
  "get_prop JUndefined k = Inl TypeError"
| "get_prop JNull k = Inl TypeError"
| "get_prop (JObj kvs) k = Inr (case map_of kvs k of None \<Rightarrow> JUndefined | Some v \<Rightarrow> v)"
| "get_prop _ k = Inr JUndefined"

text \<open>\<^verbatim>\<open>xs.join(sep)\<close> on an array of strings.\<close>

fun join :: "string \<Rightarrow> string list \<Rightarrow> string" where
  "join sep [] = []"
| "join sep [x] = x"
| "join sep (x # y # ys) = x @ sep @ join sep (y # ys)"

text \<open>
  A JavaScript \<^verbatim>\<open>Set\<close> of strings keeps its elements in insertion order, each once:
  \<^verbatim>\<open>s.add(x)\<close>, \<^verbatim>\<open>s.has(x)\<close> is membership, \<^verbatim>\<open>s.forEach\<close> runs in list order.
\<close>

definition set_add :: "string \<Rightarrow> string list \<Rightarrow> string list" where
  "set_add x xs = (if x \<in> set xs then xs else xs @ [x])"

section \<open>The data of \<^verbatim>\<open>packages/config/src/index.ts\<close>\<close>

text \<open>
  \<^verbatim>\<open>WrittenConfig\<close> and \<^verbatim>\<open>Config\<close> have the same field names; they differ in
  the experimental options, which are any JSON value in the document and a pair of
  flags in the result. Values are handed from the document to the result as they
  are, so the result's fields are JSON values too. \<open>parse\<close> accepts any object that
  has (at least) these fields, hence the extensible record.
\<close>

record 'e options =
  changelog :: json
  commit :: json
  linked :: json
  access :: json
  baseBranch :: json
  updateInternalDependencies :: json
  ignore :: json
  experimentalUnsafeOptions_WILL_CHANGE_IN_PATCH :: 'e

record flags =
  onlyUpdatePeerDependentsWhenOutOfRange :: json
  useCalculatedVersionForSnapshots :: json

type_synonym WrittenConfig = "json options"
type_synonym Config = "flags options"

text \<open>\<^verbatim>\<open>defaultWrittenConfig\<close> has one more property, \<^verbatim>\<open>$schema\<close>.\<close>

record default_written = "json options" +
  schema :: string

record package_json =
  name :: string
  version :: string

record package =
  dir :: string
  packageJson :: package_json

record Packages =
  root :: package
  tool :: string
  packages :: "package list"

text \<open>
  The collaborators \<open>parse\<close> calls are recorded in call order: the logger's
  \<^verbatim>\<open>warn(message)\<close> and \<^verbatim>\<open>getDependentsGraph(packages)\<close>.
\<close>

datatype effect = Warn string | GetDependentsGraph Packages

text \<open>The local \<^verbatim>\<open>messages\<close> array of \<open>parse\<close>, and the calls made so far.\<close>

record pstate =
  messages :: "string list"
  effects :: "effect list"

definition push :: "string \<Rightarrow> pstate \<Rightarrow> pstate" where
  "push m s = s\<lparr>messages := messages s @ [m]\<rparr>"

definition emit :: "effect \<Rightarrow> pstate \<Rightarrow> pstate" where
  "emit e s = s\<lparr>effects := effects s @ [e]\<rparr>"

text \<open>Line 39: \<^verbatim>\<open>let messages = []\<close>, and no call made yet.\<close>

definition initial :: pstate where
  "initial = \<lparr>messages = [], effects = []\<rparr>"

text \<open>
  \<^verbatim>\<open>defaultWrittenConfig\<close> (lines 10-19). The version of the package's own
  \<^verbatim>\<open>package.json\<close> is a parameter.
\<close>

definition defaultWrittenConfig :: "string \<Rightarrow> default_written" where
  \<open>defaultWrittenConfig packageVersion =
     \<lparr> changelog = JStr ''@changesets/cli/changelog'',
       commit = JBool False,
       linked = JArr [],
       access = JStr ''restricted'',
       baseBranch = JStr ''master'',
       updateInternalDependencies = JStr ''patch'',
       ignore = JArr [],
       experimentalUnsafeOptions_WILL_CHANGE_IN_PATCH = JUndefined,
       schema = ''https://unpkg.com/@changesets/config@'' @ packageVersion @ ''/schema.json'' \<rparr>\<close>

text \<open>\<^verbatim>\<open>getNormalisedChangelogOption\<close> (lines 21-31).\<close>

definition getNormalisedChangelogOption :: "json \<Rightarrow> json" where
  "getNormalisedChangelogOption thing =
     (if thing = JBool False then JBool False
      else if typeof_string thing then JArr [thing, JNull]
      else thing)"

section \<open>The messages\<close>

text \<open>
  \<^verbatim>\<open>JSON.stringify(v, null, 2)\<close> belongs to the runtime; the messages take it as the
  parameter \<open>stringify\<close>.
\<close>

definition changelog_message :: "(json \<Rightarrow> string) \<Rightarrow> json \<Rightarrow> string" where
  \<open>changelog_message stringify v =
     ''The `changelog` option is set as '' @ stringify v @
     '' when the only valid values are undefined, a module path(e.g. "@changesets/cli/changelog" or "./some-module") or a tuple with a module path and config for the changelog generator(e.g. ["@changesets/cli/changelog", { someOption: true }])''\<close>

definition access_warning :: string where
  \<open>access_warning =
     ''The `access` option is set as "private", but this is actually not a valid value - the correct form is "restricted".''\<close>

definition access_message :: "(json \<Rightarrow> string) \<Rightarrow> json \<Rightarrow> string" where
  \<open>access_message stringify v =
     ''The `access` option is set as '' @ stringify v @
     '' when the only valid values are undefined, "public" or "restricted"''\<close>

definition commit_message :: "(json \<Rightarrow> string) \<Rightarrow> json \<Rightarrow> string" where
  \<open>commit_message stringify v =
     ''The `commit` option is set as '' @ stringify v @
     '' when the only valid values are undefined or a boolean''\<close>

definition baseBranch_message :: "(json \<Rightarrow> string) \<Rightarrow> json \<Rightarrow> string" where
  \<open>baseBranch_message stringify v =
     ''The `baseBranch` option is set as '' @ stringify v @
     '' but the `baseBranch` option can only be set as a string''\<close>

definition linked_message :: "(json \<Rightarrow> string) \<Rightarrow> json \<Rightarrow> string" where
  \<open>linked_message stringify v =
     ''The `linked` option is set as '' @ stringify v @
     '' when the only valid values are undefined or an array of arrays of package names''\<close>

definition linked_not_found_message :: "string \<Rightarrow> string" where
  \<open>linked_not_found_message pkgName =
     ''The package "'' @ pkgName @
     ''" is specified in the `linked` option but it is not found in the project. You may have misspelled the package name.''\<close>

definition linked_duplicate_message :: "string \<Rightarrow> string" where
  \<open>linked_duplicate_message pkgName =
     ''The package "'' @ pkgName @
     ''" is in multiple sets of linked packages. Packages can only be in a single set of linked packages.''\<close>

definition updateInternalDependencies_message :: "(json \<Rightarrow> string) \<Rightarrow> json \<Rightarrow> string" where
  \<open>updateInternalDependencies_message stringify v =
     ''The `updateInternalDependencies` option is set as '' @ stringify v @
     '' but can only be '' @ [CHR 0x27] @ ''patch'' @ [CHR 0x27] @ '' or '' @
     [CHR 0x27] @ ''minor'' @ [CHR 0x27]\<close>

definition ignore_message :: "(json \<Rightarrow> string) \<Rightarrow> json \<Rightarrow> string" where
  \<open>ignore_message stringify v =
     ''The `ignore` option is set as '' @ stringify v @
     '' when the only valid values are undefined or an array of package names''\<close>

definition ignore_not_found_message :: "string \<Rightarrow> string" where
  \<open>ignore_not_found_message pkgName =
     ''The package "'' @ pkgName @
     ''" is specified in the `ignore` option but it is not found in the project. You may have misspelled the package name.''\<close>

definition dependent_message :: "string \<Rightarrow> string \<Rightarrow> string" where
  \<open>dependent_message dependent ignoredPackage =
     ''The package "'' @ dependent @ ''" depends on the ignored package "'' @ ignoredPackage @
     ''", but "'' @ dependent @ ''" is not being ignored. Please add "'' @ dependent @
     ''" to the `ignore` option.''\<close>

definition onlyUpdatePeerDependentsWhenOutOfRange_message ::
  "(json \<Rightarrow> string) \<Rightarrow> json \<Rightarrow> string" where
  \<open>onlyUpdatePeerDependentsWhenOutOfRange_message stringify v =
     ''The `onlyUpdatePeerDependentsWhenOutOfRange` option is set as '' @ stringify v @
     '' when the only valid values are undefined or a boolean''\<close>

definition useCalculatedVersionForSnapshots_message ::
  "(json \<Rightarrow> string) \<Rightarrow> json \<Rightarrow> string" where
  \<open>useCalculatedVersionForSnapshots_message stringify v =
     ''The `useCalculatedVersionForSnapshots` option is set as '' @ stringify v @
     '' when the only valid values are undefined or a boolean''\<close>

definition banner :: string where
  \<open>banner = ''Some errors occurred when validating the changesets config:'' @ [CHR 0x0A]\<close>

section \<open>\<^verbatim>\<open>parse\<close> (lines 38-280)\<close>

text \<open>
  Each block of \<open>parse\<close> is a function on the state, in source order. A
  \<^verbatim>\<open>messages.push(m)\<close> is \<open>push m\<close>.
\<close>

text \<open>Lines 40-57.\<close>

definition check_changelog :: "(json \<Rightarrow> string) \<Rightarrow> ('e, 'z) options_scheme \<Rightarrow> pstate \<Rightarrow> pstate" where
  "check_changelog stringify json s =
     (if changelog json \<noteq> JUndefined \<and>
         changelog json \<noteq> JBool False \<and>
         \<not> typeof_string (changelog json) \<and>
         \<not> (isArray (changelog json) \<and>
            length (elems (changelog json)) = 2 \<and>
            typeof_string (elems (changelog json) ! 0))
      then push (changelog_message stringify (changelog json)) s
      else s)"

text \<open>Lines 59-65: the value of \<^verbatim>\<open>normalizedAccess\<close>, and the warning.\<close>

definition normalizedAccess :: "('e, 'z) options_scheme \<Rightarrow> json" where
  "normalizedAccess json =
     (if access json = JStr ''private'' then JStr ''restricted'' else access json)"

definition warn_access :: "('e, 'z) options_scheme \<Rightarrow> pstate \<Rightarrow> pstate" where
  "warn_access json s =
     (if access json = JStr ''private'' then emit (Warn access_warning) s else s)"

text \<open>Lines 66-78.\<close>

definition check_access :: "(json \<Rightarrow> string) \<Rightarrow> ('e, 'z) options_scheme \<Rightarrow> pstate \<Rightarrow> pstate" where
  "check_access stringify json s =
     (if normalizedAccess json \<noteq> JUndefined \<and>
         normalizedAccess json \<noteq> JStr ''restricted'' \<and>
         normalizedAccess json \<noteq> JStr ''public''
      then push (access_message stringify (normalizedAccess json)) s
      else s)"

text \<open>Lines 80-88.\<close>

definition check_commit :: "(json \<Rightarrow> string) \<Rightarrow> ('e, 'z) options_scheme \<Rightarrow> pstate \<Rightarrow> pstate" where
  "check_commit stringify json s =
     (if commit json \<noteq> JUndefined \<and> \<not> typeof_boolean (commit json)
      then push (commit_message stringify (commit json)) s
      else s)"

text \<open>Lines 89-97.\<close>

definition check_baseBranch :: "(json \<Rightarrow> string) \<Rightarrow> ('e, 'z) options_scheme \<Rightarrow> pstate \<Rightarrow> pstate" where
  "check_baseBranch stringify json s =
     (if baseBranch json \<noteq> JUndefined \<and> \<not> typeof_string (baseBranch json)
      then push (baseBranch_message stringify (baseBranch json)) s
      else s)"

text \<open>
  Lines 117-119 and 171-173:
  \<^verbatim>\<open>new Set(packages.packages.map(({ packageJson }) => packageJson.name))\<close>.
\<close>

definition pkgNames :: "Packages \<Rightarrow> string list" where
  "pkgNames pkgs = fold set_add (map (\<lambda>p. name (packageJson p)) (packages pkgs)) []"

text \<open>
  Lines 123-133, the body of the inner loop, on the messages and the two sets
  \<^verbatim>\<open>foundPkgNames\<close> and \<^verbatim>\<open>duplicatedPkgNames\<close>.
\<close>

definition linked_step ::
  "string list \<Rightarrow> string \<Rightarrow> pstate \<times> string list \<times> string list \<Rightarrow>
   pstate \<times> string list \<times> string list" where
  "linked_step names linkedPkgName = (\<lambda>(s, foundPkgNames, duplicatedPkgNames).
     (if linkedPkgName \<notin> set names then push (linked_not_found_message linkedPkgName) s else s,
      set_add linkedPkgName foundPkgNames,
      if linkedPkgName \<in> set foundPkgNames
      then set_add linkedPkgName duplicatedPkgNames
      else duplicatedPkgNames))"

text \<open>Lines 122-134: both loops.\<close>

definition linked_loop ::
  "string list \<Rightarrow> string list list \<Rightarrow> pstate \<times> string list \<times> string list \<Rightarrow>
   pstate \<times> string list \<times> string list" where
  "linked_loop names groups = fold (\<lambda>linkedGroup. fold (linked_step names) linkedGroup) groups"

text \<open>Lines 98-143.\<close>

definition check_linked ::
  "(json \<Rightarrow> string) \<Rightarrow> ('e, 'z) options_scheme \<Rightarrow> Packages \<Rightarrow> pstate \<Rightarrow> pstate" where
  "check_linked stringify json pkgs s =
     (if linked json \<noteq> JUndefined then
        (case string_array_array (linked json) of
           None \<Rightarrow> push (linked_message stringify (linked json)) s
         | Some groups \<Rightarrow>
             (case linked_loop (pkgNames pkgs) groups (s, [], []) of
                (s', foundPkgNames, duplicatedPkgNames) \<Rightarrow>
                  if length duplicatedPkgNames \<noteq> 0
                  then fold (\<lambda>pkgName. push (linked_duplicate_message pkgName)) duplicatedPkgNames s'
                  else s'))
      else s)"

text \<open>Lines 144-155.\<close>

definition check_updateInternalDependencies ::
  "(json \<Rightarrow> string) \<Rightarrow> ('e, 'z) options_scheme \<Rightarrow> pstate \<Rightarrow> pstate" where
  "check_updateInternalDependencies stringify json s =
     (if updateInternalDependencies json \<noteq> JUndefined \<and>
         updateInternalDependencies json \<notin> set [JStr ''patch'', JStr ''minor'']
      then push (updateInternalDependencies_message stringify (updateInternalDependencies json)) s
      else s)"

text \<open>Lines 174-180.\<close>

definition ignore_found_loop :: "string list \<Rightarrow> string list \<Rightarrow> pstate \<Rightarrow> pstate" where
  "ignore_found_loop names ignored =
     fold (\<lambda>pkgName s.
             if pkgName \<notin> set names then push (ignore_not_found_message pkgName) s else s)
       ignored"

text \<open>
  Lines 184-193. The dependents graph is a \<^verbatim>\<open>Map\<close> from a package name to the
  names of its dependents; \<^verbatim>\<open>dependentsGraph.get(p) || []\<close> is the empty list where
  the map has no entry.
\<close>

definition dependents_of :: "(string \<rightharpoonup> string list) \<Rightarrow> string \<Rightarrow> string list" where
  "dependents_of dependentsGraph ignoredPackage =
     (case dependentsGraph ignoredPackage of None \<Rightarrow> [] | Some dependents \<Rightarrow> dependents)"

definition ignore_dependents_loop ::
  "(string \<rightharpoonup> string list) \<Rightarrow> string list \<Rightarrow> pstate \<Rightarrow> pstate" where
  "ignore_dependents_loop dependentsGraph ignored =
     fold (\<lambda>ignoredPackage.
             fold (\<lambda>dependent s.
                     if dependent \<notin> set ignored
                     then push (dependent_message dependent ignoredPackage) s
                     else s)
               (dependents_of dependentsGraph ignoredPackage))
       ignored"

text \<open>Lines 156-195. \<open>getDependentsGraph\<close> is the collaborator, called at line 183.\<close>

definition check_ignore ::
  "(json \<Rightarrow> string) \<Rightarrow> (Packages \<Rightarrow> (string \<rightharpoonup> string list)) \<Rightarrow>
   ('e, 'z) options_scheme \<Rightarrow> Packages \<Rightarrow> pstate \<Rightarrow> pstate" where
  "check_ignore stringify getDependentsGraph json pkgs s =
     (if truthy (ignore json) then
        (case string_array (ignore json) of
           None \<Rightarrow> push (ignore_message stringify (ignore json)) s
         | Some ignored \<Rightarrow>
             ignore_dependents_loop (getDependentsGraph pkgs) ignored
               (emit (GetDependentsGraph pkgs)
                 (ignore_found_loop (pkgNames pkgs) ignored s)))
      else s)"

text \<open>
  Lines 197-226. The destructuring at lines 198-201 reads two properties of the
  value, which throws when the value is \<^verbatim>\<open>null\<close>.
\<close>

definition check_experimental ::
  "(json \<Rightarrow> string) \<Rightarrow> (json, 'z) options_scheme \<Rightarrow> pstate \<Rightarrow> error + pstate" where
  "check_experimental stringify json s =
     (if experimentalUnsafeOptions_WILL_CHANGE_IN_PATCH json \<noteq> JUndefined then
        (case get_prop (experimentalUnsafeOptions_WILL_CHANGE_IN_PATCH json)
                ''onlyUpdatePeerDependentsWhenOutOfRange'' of
           Inl e \<Rightarrow> Inl e
         | Inr onlyUpdate \<Rightarrow>
        (case get_prop (experimentalUnsafeOptions_WILL_CHANGE_IN_PATCH json)
                ''useCalculatedVersionForSnapshots'' of
           Inl e \<Rightarrow> Inl e
         | Inr useCalculated \<Rightarrow>
             Inr ((if useCalculated \<noteq> JUndefined \<and> \<not> typeof_boolean useCalculated
                   then push (useCalculatedVersionForSnapshots_message stringify useCalculated)
                   else id)
                  ((if onlyUpdate \<noteq> JUndefined \<and> \<not> typeof_boolean onlyUpdate
                    then push (onlyUpdatePeerDependentsWhenOutOfRange_message stringify onlyUpdate)
                    else id) s))))
      else Inr s)"

text \<open>Lines 39-195: the checks up to the experimental options, in source order.\<close>

definition checks_before_experimental ::
  "(json \<Rightarrow> string) \<Rightarrow> (Packages \<Rightarrow> (string \<rightharpoonup> string list)) \<Rightarrow>
   ('e, 'z) options_scheme \<Rightarrow> Packages \<Rightarrow> pstate" where
  "checks_before_experimental stringify getDependentsGraph json pkgs =
     check_ignore stringify getDependentsGraph json pkgs
       (check_updateInternalDependencies stringify json
         (check_linked stringify json pkgs
           (check_baseBranch stringify json
             (check_commit stringify json
               (check_access stringify json
                 (warn_access json
                   (check_changelog stringify json initial)))))))"

text \<open>Lines 39-226: all checks.\<close>

definition run_checks ::
  "(json \<Rightarrow> string) \<Rightarrow> (Packages \<Rightarrow> (string \<rightharpoonup> string list)) \<Rightarrow>
   (json, 'z) options_scheme \<Rightarrow> Packages \<Rightarrow> error + pstate" where
  "run_checks stringify getDependentsGraph json pkgs =
     check_experimental stringify json
       (checks_before_experimental stringify getDependentsGraph json pkgs)"

text \<open>
  Lines 262-276: one experimental flag of the result,
  \<^verbatim>\<open>e === undefined || e.flag === undefined ? false : e.flag\<close>.
\<close>

definition flag_or_false :: "json \<Rightarrow> string \<Rightarrow> error + json" where
  "flag_or_false e k =
     (if e = JUndefined then Inr (JBool False)
      else case get_prop e k of
             Inl err \<Rightarrow> Inl err
           | Inr v \<Rightarrow> Inr (if v = JUndefined then JBool False else v))"

text \<open>Lines 234-279: the \<^verbatim>\<open>config\<close> object. The default is a parameter here, as \<open>parse\<close> reads the module-level object.\<close>

definition assemble :: "(json, 'y) options_scheme \<Rightarrow> (json, 'z) options_scheme \<Rightarrow> error + Config" where
  "assemble dflt json =
     (case flag_or_false (experimentalUnsafeOptions_WILL_CHANGE_IN_PATCH json)
             ''onlyUpdatePeerDependentsWhenOutOfRange'' of
        Inl err \<Rightarrow> Inl err
      | Inr onlyUpdate \<Rightarrow>
     (case flag_or_false (experimentalUnsafeOptions_WILL_CHANGE_IN_PATCH json)
             ''useCalculatedVersionForSnapshots'' of
        Inl err \<Rightarrow> Inl err
      | Inr useCalculated \<Rightarrow>
          Inr \<lparr> changelog =
                  getNormalisedChangelogOption
                    (if changelog json = JUndefined then changelog dflt else changelog json),
                commit = (if commit json = JUndefined then commit dflt else commit json),
                linked = (if linked json = JUndefined then linked dflt else linked json),
                access =
                  (if normalizedAccess json = JUndefined then access dflt
                   else normalizedAccess json),
                baseBranch =
                  (if baseBranch json = JUndefined then baseBranch dflt else baseBranch json),
                updateInternalDependencies =
                  (if updateInternalDependencies json = JUndefined
                   then updateInternalDependencies dflt
                   else updateInternalDependencies json),
                ignore = (if ignore json = JUndefined then ignore dflt else ignore json),
                experimentalUnsafeOptions_WILL_CHANGE_IN_PATCH =
                  \<lparr> onlyUpdatePeerDependentsWhenOutOfRange = onlyUpdate,
                    useCalculatedVersionForSnapshots = useCalculated \<rparr> \<rparr>))"

text \<open>
  \<open>parse\<close>: the calls it made, and what it threw (\<open>Inl\<close>) or returned (\<open>Inr\<close>).
  Lines 227-232 throw the aggregated error.
\<close>

definition parse ::
  "(json \<Rightarrow> string) \<Rightarrow> (Packages \<Rightarrow> (string \<rightharpoonup> string list)) \<Rightarrow> string \<Rightarrow>
   (json, 'z) options_scheme \<Rightarrow> Packages \<Rightarrow> effect list \<times> (error + Config)" where
  "parse stringify getDependentsGraph packageVersion json pkgs =
     (case run_checks stringify getDependentsGraph json pkgs of
        Inl e \<Rightarrow>
          (effects (checks_before_experimental stringify getDependentsGraph json pkgs), Inl e)
      | Inr s \<Rightarrow>
          (effects s,
           if length (messages s) \<noteq> 0
           then Inl (ValidationError (banner @ join [CHR 0x0A] (messages s)))
           else assemble (defaultWrittenConfig packageVersion) json))"

text \<open>Lines 282-294.\<close>

definition fakePackage :: package where
  "fakePackage = \<lparr> dir = [], packageJson = \<lparr> name = [], version = [] \<rparr> \<rparr>"

definition defaultConfig ::
  "(json \<Rightarrow> string) \<Rightarrow> (Packages \<Rightarrow> (string \<rightharpoonup> string list)) \<Rightarrow> string \<Rightarrow>
   effect list \<times> (error + Config)" where
  "defaultConfig stringify getDependentsGraph packageVersion =
     parse stringify getDependentsGraph packageVersion (defaultWrittenConfig packageVersion)
       \<lparr> root = fakePackage, tool = ''root'', packages = [fakePackage] \<rparr>"

section \<open>What each check contributes\<close>

text \<open>
  The messages one block pushes when it starts from the empty list. That a block
  pushes the same messages after any earlier ones is proved below.
\<close>

definition changelog_messages :: "(json \<Rightarrow> string) \<Rightarrow> ('e, 'z) options_scheme \<Rightarrow> string list" where
  "changelog_messages stringify json = messages (check_changelog stringify json initial)"

definition access_messages :: "(json \<Rightarrow> string) \<Rightarrow> ('e, 'z) options_scheme \<Rightarrow> string list" where
  "access_messages stringify json = messages (check_access stringify json initial)"

definition commit_messages :: "(json \<Rightarrow> string) \<Rightarrow> ('e, 'z) options_scheme \<Rightarrow> string list" where
  "commit_messages stringify json = messages (check_commit stringify json initial)"

definition baseBranch_messages :: "(json \<Rightarrow> string) \<Rightarrow> ('e, 'z) options_scheme \<Rightarrow> string list" where
  "baseBranch_messages stringify json = messages (check_baseBranch stringify json initial)"

definition linked_messages ::
  "(json \<Rightarrow> string) \<Rightarrow> ('e, 'z) options_scheme \<Rightarrow> Packages \<Rightarrow> string list" where
  "linked_messages stringify json pkgs = messages (check_linked stringify json pkgs initial)"

definition updateInternalDependencies_messages ::
  "(json \<Rightarrow> string) \<Rightarrow> ('e, 'z) options_scheme \<Rightarrow> string list" where
  "updateInternalDependencies_messages stringify json =
     messages (check_updateInternalDependencies stringify json initial)"

definition ignore_messages ::
  "(json \<Rightarrow> string) \<Rightarrow> (Packages \<Rightarrow> (string \<rightharpoonup> string list)) \<Rightarrow>
   ('e, 'z) options_scheme \<Rightarrow> Packages \<Rightarrow> string list" where
  "ignore_messages stringify getDependentsGraph json pkgs =
     messages (check_ignore stringify getDependentsGraph json pkgs initial)"

definition experimental_messages :: "(json \<Rightarrow> string) \<Rightarrow> (json, 'z) options_scheme \<Rightarrow> string list" where
  "experimental_messages stringify json =
     (case check_experimental stringify json initial of Inl e \<Rightarrow> [] | Inr s \<Rightarrow> messages s)"

text \<open>
  The pairs (ignored package, dependent that is not ignored), in the order of the
  two loops of lines 184-193; a pair occurs as often as the loops meet it.
\<close>

definition missing_dependents ::
  "(string \<rightharpoonup> string list) \<Rightarrow> string list \<Rightarrow> (string \<times> string) list" where
  "missing_dependents dependentsGraph ignored =
     concat (map (\<lambda>ignoredPackage.
                    map (Pair ignoredPackage)
                      (filter (\<lambda>dependent. dependent \<notin> set ignored)
                         (dependents_of dependentsGraph ignoredPackage)))
               ignored)"

text \<open>
  The set \<^verbatim>\<open>duplicatedPkgNames\<close> after the loop of lines 122-134 has run over the names
  \<open>xs\<close>, started with \<^verbatim>\<open>foundPkgNames = seen\<close> and \<^verbatim>\<open>duplicatedPkgNames = dup\<close>:
  \<open>linked_step\<close> without the messages.
\<close>

fun repeated :: "string list \<Rightarrow> string list \<Rightarrow> string list \<Rightarrow> string list" where
  "repeated seen dup [] = dup"
| "repeated seen dup (x # xs) =
     repeated (set_add x seen) (if x \<in> set seen then set_add x dup else dup) xs"

text \<open>The document with every option omitted, and the calls that are warnings.\<close>

definition no_options :: WrittenConfig where
  "no_options =
     \<lparr> changelog = JUndefined, commit = JUndefined, linked = JUndefined,
       access = JUndefined, baseBranch = JUndefined,
       updateInternalDependencies = JUndefined, ignore = JUndefined,
       experimentalUnsafeOptions_WILL_CHANGE_IN_PATCH = JUndefined \<rparr>"

fun is_warning :: "effect \<Rightarrow> bool" where
  "is_warning (Warn m) = True"
| "is_warning (GetDependentsGraph pkgs) = False"

fun is_graph_call :: "effect \<Rightarrow> bool" where
  "is_graph_call (Warn m) = False"
| "is_graph_call (GetDependentsGraph pkgs) = True"

section \<open>Inputs used in the examples\<close>

definition example_stringify :: "json \<Rightarrow> string" where
  "example_stringify v = ''<value>''"

definition no_dependents :: "Packages \<Rightarrow> (string \<rightharpoonup> string list)" where
  "no_dependents pkgs = Map.empty"

definition shared_dependent :: "Packages \<Rightarrow> (string \<rightharpoonup> string list)" where
  "shared_dependent pkgs =
     [''pkg-a'' \<mapsto> [''pkg-c''], ''pkg-b'' \<mapsto> [''pkg-c''], ''pkg-c'' \<mapsto> []]"

definition workspace :: "string list \<Rightarrow> Packages" where
  "workspace names =
     \<lparr> root = fakePackage, tool = ''root'',
       packages = map (\<lambda>n. \<lparr> dir = n, packageJson = \<lparr> name = n, version = ''1.0.0'' \<rparr> \<rparr>) names \<rparr>"

definition faulty_document :: WrittenConfig where
  "faulty_document =
     \<lparr> changelog = JNum 1,
       commit = JStr ''yes'',
       linked = JArr [JArr [JStr ''pkg-x'', JStr ''pkg-x'']],
       access = JStr ''open'',
       baseBranch = JNum 2,
       updateInternalDependencies = JStr ''major'',
       ignore = JArr [JStr ''pkg-a''],
       experimentalUnsafeOptions_WILL_CHANGE_IN_PATCH =
         JObj [(''useCalculatedVersionForSnapshots'', JNum 1)] \<rparr>"

section \<open>The state after each block\<close>

lemma messages_push [simp]: "messages (push m s) = messages s @ [m]"
  and effects_push [simp]: "effects (push m s) = effects s"
  by (simp_all add: push_def)

lemma messages_emit [simp]: "messages (emit e s) = messages s"
  and effects_emit [simp]: "effects (emit e s) = effects s @ [e]"
  by (simp_all add: emit_def)

lemma initial_simps [simp]: "messages initial = []" "effects initial = []"
  by (simp_all add: initial_def)

lemma fold_push_messages:
  "messages (fold (\<lambda>x s. if P x then push (f x) s else s) xs s) = messages s @ map f (filter P xs)"
  by (induction xs arbitrary: s) auto

lemma fold_push_effects:
  "effects (fold (\<lambda>x s. if P x then push (f x) s else s) xs s) = effects s"
  by (induction xs arbitrary: s) auto

lemma fold_push_all_messages:
  "messages (fold (\<lambda>x. push (f x)) xs s) = messages s @ map f xs"
  by (induction xs arbitrary: s) auto

lemma fold_push_all_effects:
  "effects (fold (\<lambda>x. push (f x)) xs s) = effects s"
  by (induction xs arbitrary: s) auto

lemma check_changelog_messages:
  "messages (check_changelog st json s) = messages s @ changelog_messages st json"
  by (simp add: check_changelog_def changelog_messages_def)

lemma check_changelog_effects: "effects (check_changelog st json s) = effects s"
  by (simp add: check_changelog_def)

lemma warn_access_messages: "messages (warn_access json s) = messages s"
  by (simp add: warn_access_def)

lemma warn_access_effects:
  "effects (warn_access json s) =
     effects s @ (if access json = JStr ''private'' then [Warn access_warning] else [])"
  by (simp add: warn_access_def)

lemma check_access_messages:
  "messages (check_access st json s) = messages s @ access_messages st json"
  by (simp add: check_access_def access_messages_def)

lemma check_access_effects: "effects (check_access st json s) = effects s"
  by (simp add: check_access_def)

lemma check_commit_messages:
  "messages (check_commit st json s) = messages s @ commit_messages st json"
  by (simp add: check_commit_def commit_messages_def)

lemma check_commit_effects: "effects (check_commit st json s) = effects s"
  by (simp add: check_commit_def)

lemma check_baseBranch_messages:
  "messages (check_baseBranch st json s) = messages s @ baseBranch_messages st json"
  by (simp add: check_baseBranch_def baseBranch_messages_def)

lemma check_baseBranch_effects: "effects (check_baseBranch st json s) = effects s"
  by (simp add: check_baseBranch_def)

lemma check_updateInternalDependencies_messages:
  "messages (check_updateInternalDependencies st json s) =
     messages s @ updateInternalDependencies_messages st json"
  by (simp add: check_updateInternalDependencies_def updateInternalDependencies_messages_def)

lemma check_updateInternalDependencies_effects:
  "effects (check_updateInternalDependencies st json s) = effects s"
  by (simp add: check_updateInternalDependencies_def)

lemma fold_fold_concat: "fold (fold f) xss a = fold f (concat xss) a"
  by (induction xss arbitrary: a) simp_all

lemma linked_loop_concat: "linked_loop names groups t = fold (linked_step names) (concat groups) t"
  by (simp add: linked_loop_def fold_fold_concat)
  
lemma linked_steps:
  "fold (linked_step names) xs (s, found, dup) =
     (s\<lparr>messages := messages s @ map linked_not_found_message (filter (\<lambda>n. n \<notin> set names) xs)\<rparr>,
      fold set_add xs found,
      repeated found dup xs)"
  by (induction xs arbitrary: s found dup) (auto simp: linked_step_def push_def)

lemma set_set_add [simp]: "set (set_add x xs) = insert x (set xs)"
  by (auto simp: set_add_def)

lemma distinct_set_add [simp]: "distinct (set_add x xs) = distinct xs"
  by (auto simp: set_add_def)



lemma check_linked_well_shaped:
  assumes "string_array_array (linked json) = Some groups"
  shows "messages (check_linked st json pkgs s) =
           messages s @
           map linked_not_found_message
             (filter (\<lambda>n. n \<notin> set (pkgNames pkgs)) (concat groups)) @
           map linked_duplicate_message (repeated [] [] (concat groups))"
proof -
  have "linked json \<noteq> JUndefined"
    using assms by auto
  then show ?thesis
    using assms
    by (simp add: check_linked_def linked_loop_concat linked_steps fold_push_all_messages)
qed

lemma check_linked_messages:
  "messages (check_linked st json pkgs s) = messages s @ linked_messages st json pkgs"
proof (cases "string_array_array (linked json)")
  case None
  then show ?thesis
    by (simp add: check_linked_def linked_messages_def)
next
  case (Some groups)
  then show ?thesis
    by (simp add: check_linked_well_shaped linked_messages_def)
qed

lemma check_linked_effects: "effects (check_linked st json pkgs s) = effects s"
  by (simp add: check_linked_def linked_loop_concat linked_steps fold_push_all_effects
      split: option.split)

lemma ignore_found_loop_messages:
  "messages (ignore_found_loop names ignored s) =
     messages s @ map ignore_not_found_message (filter (\<lambda>n. n \<notin> set names) ignored)"
  by (simp add: ignore_found_loop_def fold_push_messages)

lemma ignore_found_loop_effects: "effects (ignore_found_loop names ignored s) = effects s"
  by (simp add: ignore_found_loop_def fold_push_effects)

lemma dependents_inner_messages:
  "messages (fold (\<lambda>dependent s.
                     if dependent \<notin> set ignored
                     then push (dependent_message dependent p) s
                     else s) ds s) =
     messages s @ map (\<lambda>d. dependent_message d p) (filter (\<lambda>d. d \<notin> set ignored) ds)"
  by (induction ds arbitrary: s) auto

lemma dependents_inner_effects:
  "effects (fold (\<lambda>dependent s.
                     if dependent \<notin> set ignored
                     then push (dependent_message dependent p) s
                     else s) ds s) = effects s"
  by (induction ds arbitrary: s) auto

lemma dependents_outer_messages:
  "messages (fold (\<lambda>ignoredPackage.
             fold (\<lambda>dependent s.
                     if dependent \<notin> set ignored
                     then push (dependent_message dependent ignoredPackage) s
                     else s)
               (dependents_of dg ignoredPackage)) ps s) =
   messages s @
   map (\<lambda>(p, d). dependent_message d p)
     (concat (map (\<lambda>p. map (Pair p) (filter (\<lambda>d. d \<notin> set ignored) (dependents_of dg p))) ps))"
  by (induction ps arbitrary: s) (simp_all add: dependents_inner_messages comp_def)

lemma dependents_outer_effects:
  "effects (fold (\<lambda>ignoredPackage.
             fold (\<lambda>dependent s.
                     if dependent \<notin> set ignored
                     then push (dependent_message dependent ignoredPackage) s
                     else s)
               (dependents_of dg ignoredPackage)) ps s) = effects s"
  by (induction ps arbitrary: s) (simp_all add: dependents_inner_effects)

lemma ignore_dependents_loop_messages:
  "messages (ignore_dependents_loop dg ignored s) =
     messages s @ map (\<lambda>(p, d). dependent_message d p) (missing_dependents dg ignored)"
  by (simp add: ignore_dependents_loop_def missing_dependents_def dependents_outer_messages)

lemma ignore_dependents_loop_effects: "effects (ignore_dependents_loop dg ignored s) = effects s"
  by (simp add: ignore_dependents_loop_def dependents_outer_effects)

lemma check_ignore_well_shaped:
  assumes "string_array (ignore json) = Some ignored"
  shows "messages (check_ignore st g json pkgs s) =
           messages s @
           map ignore_not_found_message (filter (\<lambda>n. n \<notin> set (pkgNames pkgs)) ignored) @
           map (\<lambda>(p, d). dependent_message d p) (missing_dependents (g pkgs) ignored)"
    and "effects (check_ignore st g json pkgs s) = effects s @ [GetDependentsGraph pkgs]"
proof -
  have "truthy (ignore json)"
    using assms by (cases "ignore json") auto
  then show "messages (check_ignore st g json pkgs s) =
           messages s @
           map ignore_not_found_message (filter (\<lambda>n. n \<notin> set (pkgNames pkgs)) ignored) @
           map (\<lambda>(p, d). dependent_message d p) (missing_dependents (g pkgs) ignored)"
    and "effects (check_ignore st g json pkgs s) = effects s @ [GetDependentsGraph pkgs]"
    using assms
    by (simp_all add: check_ignore_def ignore_dependents_loop_messages
        ignore_dependents_loop_effects ignore_found_loop_messages ignore_found_loop_effects)
qed

lemma check_ignore_messages:
  "messages (check_ignore st g json pkgs s) = messages s @ ignore_messages st g json pkgs"
proof (cases "string_array (ignore json)")
  case None
  then show ?thesis
    by (simp add: check_ignore_def ignore_messages_def)
next
  case (Some ignored)
  then show ?thesis
    by (simp add: check_ignore_well_shaped ignore_messages_def)
qed

lemma check_ignore_effects:
  "effects (check_ignore st g json pkgs s) =
     effects s @
     (if truthy (ignore json) \<and> string_array (ignore json) \<noteq> None
      then [GetDependentsGraph pkgs] else [])"
  by (cases "string_array (ignore json)")
     (auto simp: check_ignore_def ignore_dependents_loop_effects ignore_found_loop_effects)

lemma check_experimental_null:
  "(\<exists>s'. check_experimental st json s = Inr s') \<longleftrightarrow>
     experimentalUnsafeOptions_WILL_CHANGE_IN_PATCH json \<noteq> JNull"
  by (cases "experimentalUnsafeOptions_WILL_CHANGE_IN_PATCH json")
     (simp_all add: check_experimental_def)

lemma check_experimental_TypeError:
  "check_experimental st json s = Inl e \<Longrightarrow> e = TypeError"
  by (cases "experimentalUnsafeOptions_WILL_CHANGE_IN_PATCH json")
     (simp_all add: check_experimental_def)

lemma check_experimental_messages:
  assumes "check_experimental st json s = Inr s'"
  shows "messages s' = messages s @ experimental_messages st json"
    and "effects s' = effects s"
  using assms
  by (cases "experimentalUnsafeOptions_WILL_CHANGE_IN_PATCH json";
      auto simp: check_experimental_def experimental_messages_def)+

lemma checks_before_experimental_messages:
  "messages (checks_before_experimental st g json pkgs) =
     changelog_messages st json @ access_messages st json @ commit_messages st json @
     baseBranch_messages st json @ linked_messages st json pkgs @
     updateInternalDependencies_messages st json @ ignore_messages st g json pkgs"
  by (simp add: checks_before_experimental_def check_ignore_messages
      check_updateInternalDependencies_messages check_linked_messages check_baseBranch_messages
      check_commit_messages check_access_messages warn_access_messages check_changelog_messages)

lemma checks_before_experimental_effects:
  "effects (checks_before_experimental st g json pkgs) =
     (if access json = JStr ''private'' then [Warn access_warning] else []) @
     (if truthy (ignore json) \<and> string_array (ignore json) \<noteq> None
      then [GetDependentsGraph pkgs] else [])"
  by (simp add: checks_before_experimental_def check_ignore_effects
      check_updateInternalDependencies_effects check_linked_effects check_baseBranch_effects
      check_commit_effects check_access_effects warn_access_effects check_changelog_effects)

section \<open>Well-shaped values, and the result of \<^verbatim>\<open>parse\<close>\<close>

lemma strings_of_Some: "strings_of xs = Some ns \<longleftrightarrow> xs = map JStr ns"
proof (induction xs arbitrary: ns)
  case Nil
  then show ?case by auto
next
  case (Cons x xs)
  show ?case
  proof (cases x)
    case (JStr s)
    with Cons show ?thesis by (cases ns) auto
  qed (cases ns; simp)+
qed

lemma string_array_Some: "string_array j = Some ns \<longleftrightarrow> j = JArr (map JStr ns)"
  by (cases j) (auto simp: strings_of_Some)

lemma map_JStr_eq: "map JStr xs = map JStr ys \<longleftrightarrow> xs = ys"
  by (simp add: inj_map_eq_map inj_on_def)

lemma string_array_JArr: "string_array (JArr (map JStr ns)) = Some ns"
  using string_array_Some by blast

lemma string_arrays_of_Some:
  "string_arrays_of xs = Some groups \<longleftrightarrow> xs = map (\<lambda>names. JArr (map JStr names)) groups"
proof (induction xs arbitrary: groups)
  case Nil
  then show ?case by auto
next
  case (Cons x xs)
  show ?case
  proof (cases "string_array x")
    case None
    then have "x \<noteq> JArr (map JStr ns)" for ns
      using string_array_JArr by force
    with None show ?thesis
      by (cases groups) auto
  next
    case (Some ns)
    then have "x = JArr (map JStr ns)"
      by (simp add: string_array_Some)
    with Some Cons.IH show ?thesis
      by (cases groups) (auto simp: map_JStr_eq)
  qed
qed

lemma string_array_array_Some:
  "string_array_array j = Some groups \<longleftrightarrow>
     j = JArr (map (\<lambda>names. JArr (map JStr names)) groups)"
  by (cases j) (auto simp: string_arrays_of_Some)

lemma set_fold_set_add: "set (fold set_add xs ys) = set xs \<union> set ys"
  by (induction xs arbitrary: ys) auto

lemma set_pkgNames: "set (pkgNames pkgs) = (\<lambda>p. name (packageJson p)) ` set (packages pkgs)"
  by (simp add: pkgNames_def set_fold_set_add)

lemma run_checks_Inr:
  assumes "experimentalUnsafeOptions_WILL_CHANGE_IN_PATCH json \<noteq> JNull"
  obtains s where "run_checks st g json pkgs = Inr s"
    and "messages s =
           messages (checks_before_experimental st g json pkgs) @ experimental_messages st json"
    and "effects s = effects (checks_before_experimental st g json pkgs)"
proof -
  from assms obtain s where s: "run_checks st g json pkgs = Inr s"
    unfolding run_checks_def using check_experimental_null by blast
  then show thesis
    using that check_experimental_messages unfolding run_checks_def by blast
qed

lemma run_checks_null:
  "experimentalUnsafeOptions_WILL_CHANGE_IN_PATCH json = JNull \<Longrightarrow>
     run_checks st g json pkgs = Inl TypeError"
  by (simp add: run_checks_def check_experimental_def)

lemma flag_or_false_Inr: "e \<noteq> JNull \<Longrightarrow> \<exists>v. flag_or_false e k = Inr v"
  by (cases e) (simp_all add: flag_or_false_def)

lemma assemble_Inr:
  assumes "experimentalUnsafeOptions_WILL_CHANGE_IN_PATCH json \<noteq> JNull"
  shows "\<exists>cfg. assemble d json = Inr cfg"
proof -
  obtain a where a: "flag_or_false (experimentalUnsafeOptions_WILL_CHANGE_IN_PATCH json)
      ''onlyUpdatePeerDependentsWhenOutOfRange'' = Inr a"
    using flag_or_false_Inr [OF assms] by blast
  obtain b where b: "flag_or_false (experimentalUnsafeOptions_WILL_CHANGE_IN_PATCH json)
      ''useCalculatedVersionForSnapshots'' = Inr b"
    using flag_or_false_Inr [OF assms] by blast
  show ?thesis
    by (simp add: assemble_def a b)
qed

lemma assemble_fields:
  assumes "assemble d json = Inr cfg"
  shows "changelog cfg =
           getNormalisedChangelogOption
             (if changelog json = JUndefined then changelog d else changelog json)"
    and "commit cfg = (if commit json = JUndefined then commit d else commit json)"
    and "linked cfg = (if linked json = JUndefined then linked d else linked json)"
    and "access cfg =
           (if normalizedAccess json = JUndefined then access d else normalizedAccess json)"
    and "baseBranch cfg =
           (if baseBranch json = JUndefined then baseBranch d else baseBranch json)"
    and "updateInternalDependencies cfg =
           (if updateInternalDependencies json = JUndefined then updateInternalDependencies d
            else updateInternalDependencies json)"
    and "ignore cfg = (if ignore json = JUndefined then ignore d else ignore json)"
  using assms by (auto simp: assemble_def split: sum.splits)

lemma parse_Inr_assemble:
  "snd (parse st g v json pkgs) = Inr cfg \<Longrightarrow>
     assemble (defaultWrittenConfig v) json = Inr cfg"
  by (auto simp: parse_def split: sum.splits if_splits)

lemma parse_effects:
  "fst (parse st g v json pkgs) = effects (checks_before_experimental st g json pkgs)"
proof (cases "experimentalUnsafeOptions_WILL_CHANGE_IN_PATCH json = JNull")
  case True
  then show ?thesis
    by (simp add: parse_def run_checks_null)
next
  case False
  then obtain s where "run_checks st g json pkgs = Inr s"
    and "effects s = effects (checks_before_experimental st g json pkgs)"
    using run_checks_Inr by blast
  then show ?thesis
    by (simp add: parse_def)
qed

lemma parse_result:
  "snd (parse st g v json pkgs) =
     (if experimentalUnsafeOptions_WILL_CHANGE_IN_PATCH json = JNull then Inl TypeError
      else if messages (checks_before_experimental st g json pkgs) @
                experimental_messages st json \<noteq> []
      then Inl (ValidationError (banner @ join [CHR 0x0A]
             (messages (checks_before_experimental st g json pkgs) @
              experimental_messages st json)))
      else assemble (defaultWrittenConfig v) json)"
proof (cases "experimentalUnsafeOptions_WILL_CHANGE_IN_PATCH json = JNull")
  case True
  then show ?thesis
    by (simp add: parse_def run_checks_null)
next
  case False
  then obtain s where "run_checks st g json pkgs = Inr s"
    and "messages s =
           messages (checks_before_experimental st g json pkgs) @ experimental_messages st json"
    using run_checks_Inr by blast
  then show ?thesis
    using False by (simp add: parse_def)
qed

lemma no_messages_undefined:
  "changelog json = JUndefined \<Longrightarrow> changelog_messages st json = []"
  "access json = JUndefined \<Longrightarrow> access_messages st json = []"
  "commit json = JUndefined \<Longrightarrow> commit_messages st json = []"
  "baseBranch json = JUndefined \<Longrightarrow> baseBranch_messages st json = []"
  "linked json = JUndefined \<Longrightarrow> linked_messages st json pkgs = []"
  "updateInternalDependencies json = JUndefined \<Longrightarrow>
     updateInternalDependencies_messages st json = []"
  "\<not> truthy (ignore json) \<Longrightarrow> ignore_messages st g json pkgs = []"
  "experimentalUnsafeOptions_WILL_CHANGE_IN_PATCH json = JUndefined \<Longrightarrow>
     experimental_messages st json = []"
  by (simp_all add: changelog_messages_def check_changelog_def access_messages_def
      check_access_def normalizedAccess_def commit_messages_def check_commit_def
      baseBranch_messages_def check_baseBranch_def linked_messages_def check_linked_def
      updateInternalDependencies_messages_def check_updateInternalDependencies_def
      ignore_messages_def check_ignore_def experimental_messages_def check_experimental_def)

lemmas parse_eval =
  parse_def run_checks_def checks_before_experimental_def no_options_def
  check_changelog_def warn_access_def check_access_def normalizedAccess_def
  check_commit_def check_baseBranch_def check_linked_def
  check_updateInternalDependencies_def check_ignore_def check_experimental_def
  initial_def assemble_def flag_or_false_def defaultWrittenConfig_def
  getNormalisedChangelogOption_def push_def emit_def

lemma no_options_fields:
  "changelog no_options = JUndefined" "commit no_options = JUndefined"
  "linked no_options = JUndefined" "access no_options = JUndefined"
  "baseBranch no_options = JUndefined" "updateInternalDependencies no_options = JUndefined"
  "ignore no_options = JUndefined"
  "experimentalUnsafeOptions_WILL_CHANGE_IN_PATCH no_options = JUndefined"
  by (simp_all add: no_options_def)

section \<open>Duplicates in \<^verbatim>\<open>linked\<close>, dependents in \<^verbatim>\<open>ignore\<close>\<close>







lemma set_missing_dependents:
  "(p, d) \<in> set (missing_dependents dg ignored) \<longleftrightarrow>
     p \<in> set ignored \<and> d \<in> set (dependents_of dg p) \<and> d \<notin> set ignored"
  by (auto simp: missing_dependents_def)

lemma length_missing_dependents:
  "length (missing_dependents dg ignored) =
     sum_list (map (\<lambda>p. length (filter (\<lambda>d. d \<notin> set ignored) (dependents_of dg p))) ignored)"
  by (simp add: missing_dependents_def length_concat comp_def)

lemma join_contains:
  "m \<in> set ms \<Longrightarrow> \<exists>before after. join sep ms = before @ m @ after"
proof (induction sep ms rule: join.induct)
  case (1 sep)
  then show ?case by simp
next
  case (2 sep x)
  then have "join sep [x] = [] @ m @ []" by simp
  then show ?case by blast
next
  case (3 sep x y ys)
  show ?case
  proof (cases "m = x")
    case True
    then have "join sep (x # y # ys) = [] @ m @ (sep @ join sep (y # ys))" by simp
    then show ?thesis by blast
  next
    case False
    with 3 obtain before after where "join sep (y # ys) = before @ m @ after"
      by auto
    then have "join sep (x # y # ys) = (x @ sep @ before) @ m @ after" by simp
    then show ?thesis by blast
  qed
qed

lemma quote_free_prefix:
  assumes "xs @ c # ys = xs' @ c # ys'" and "c \<notin> set xs" and "c \<notin> set xs'"
  shows "xs = xs'"
proof -
  have "takeWhile (\<lambda>x. x \<noteq> c) (xs @ c # ys) = xs"
    using assms(2) by (auto simp: takeWhile_tail)
  moreover have "takeWhile (\<lambda>x. x \<noteq> c) (xs' @ c # ys') = xs'"
    using assms(3) by (auto simp: takeWhile_tail)
  ultimately show ?thesis
    using assms(1) by simp
qed

lemma dependent_message_dependent:
  assumes "dependent_message d p = dependent_message d' p'"
    and "CHR 0x22 \<notin> set d" and "CHR 0x22 \<notin> set d'"
  shows "d = d'"
proof -
  from assms(1) have "d @ CHR 0x22 #
      ('' depends on the ignored package '' @ [CHR 0x22] @ p @ [CHR 0x22] @ '', but '' @ [CHR 0x22] @ d @
       [CHR 0x22] @ '' is not being ignored. Please add '' @ [CHR 0x22] @ d @ [CHR 0x22] @ '' to the `ignore` option.'') =
      d' @ CHR 0x22 #
      ('' depends on the ignored package '' @ [CHR 0x22] @ p' @ [CHR 0x22] @ '', but '' @ [CHR 0x22] @ d' @
       [CHR 0x22] @ '' is not being ignored. Please add '' @ [CHR 0x22] @ d' @ [CHR 0x22] @ '' to the `ignore` option.'')"
    by (simp add: dependent_message_def)
  then show ?thesis
    using assms(2,3) by (rule quote_free_prefix)
qed

lemma not_found_is_not_dependent:
  "ignore_not_found_message n \<noteq> dependent_message d p"
proof
  assume eq: "ignore_not_found_message n = dependent_message d p"
  have nf: \<open>ignore_not_found_message n =
      (''The package "'' @ n @ ''" is specified in the `ignore` option but it is not found in the project. You may have misspelled the package nam'') @ ''e.''\<close>
    by (simp add: ignore_not_found_message_def)
  have dep: \<open>dependent_message d p =
      (''The package "'' @ d @ ''" depends on the ignored package "'' @ p @
       ''", but "'' @ d @ ''" is not being ignored. Please add "'' @ d @
       ''" to the `ignore` optio'') @ ''n.''\<close>
    by (simp add: dependent_message_def)
  from eq have "''e.'' = ''n.''"
    unfolding nf dep by (subst (asm) append_eq_append_conv) simp_all
  then show False
    by simp
qed

section \<open>The claims\<close>

text \<open>
  C1. Whenever the experimental options are not \<^verbatim>\<open>null\<close>, all checks run and leave
  a message list; \<open>parse\<close> fails exactly when that list is non-empty, the failure is
  the one \<^verbatim>\<open>ValidationError\<close> whose text is the banner line followed by the messages
  in order, joined by newlines, and with an empty list \<open>parse\<close> returns a configuration.
\<close>

theorem parse_fails_iff_messages:
  assumes "experimentalUnsafeOptions_WILL_CHANGE_IN_PATCH json \<noteq> JNull"
  shows "\<exists>s. run_checks stringify getDependentsGraph json pkgs = Inr s \<and>
           (isl (snd (parse stringify getDependentsGraph packageVersion json pkgs)) \<longleftrightarrow>
              messages s \<noteq> []) \<and>
           (messages s \<noteq> [] \<longrightarrow>
              snd (parse stringify getDependentsGraph packageVersion json pkgs) =
                Inl (ValidationError (banner @ join [CHR 0x0A] (messages s)))) \<and>
           (messages s = [] \<longrightarrow>
              (\<exists>cfg. snd (parse stringify getDependentsGraph packageVersion json pkgs) = Inr cfg))"
proof -
  obtain s where s: "run_checks stringify getDependentsGraph json pkgs = Inr s"
    using run_checks_Inr [OF assms] by blast
  obtain cfg where cfg: "assemble (defaultWrittenConfig packageVersion) json = Inr cfg"
    using assemble_Inr [OF assms] by blast
  have "snd (parse stringify getDependentsGraph packageVersion json pkgs) =
          (if messages s \<noteq> []
           then Inl (ValidationError (banner @ join [CHR 0x0A] (messages s)))
           else Inr cfg)"
    by (simp add: parse_def s cfg)
  with s show ?thesis
    by auto
qed

theorem parse_fails_iff_messages_witness:
  "experimentalUnsafeOptions_WILL_CHANGE_IN_PATCH (no_options\<lparr>commit := JNum 1\<rparr>) \<noteq> JNull \<and>
   snd (parse example_stringify no_dependents ''1.0.0'' (no_options\<lparr>commit := JNum 1\<rparr>)
          (workspace [])) =
     Inl (ValidationError (banner @ commit_message example_stringify (JNum 1)))"
proof -
  let ?json = "no_options\<lparr>commit := JNum 1\<rparr>"
  have h: "experimentalUnsafeOptions_WILL_CHANGE_IN_PATCH ?json \<noteq> JNull"
    by (simp add: no_options_def)
  have run: "run_checks example_stringify no_dependents ?json (workspace []) =
      Inr \<lparr>messages = [commit_message example_stringify (JNum 1)], effects = []\<rparr>"
    by (simp add: parse_eval)
  from parse_fails_iff_messages [OF h, of example_stringify no_dependents "workspace []" "''1.0.0''"]
  show ?thesis
    using h by (auto simp: run)
qed

text \<open>
  With \<^verbatim>\<open>null\<close> for the experimental options and nothing else in the document,
  no message has been pushed, and \<open>parse\<close> fails all the same: the destructuring at
  lines 198-201 throws a \<^verbatim>\<open>TypeError\<close>, which is not the aggregated error.
\<close>

theorem null_experimental_options_TypeError:
  "messages (checks_before_experimental example_stringify no_dependents
      (no_options\<lparr>experimentalUnsafeOptions_WILL_CHANGE_IN_PATCH := JNull\<rparr>) (workspace [])) = [] \<and>
   snd (parse example_stringify no_dependents ''1.0.0''
      (no_options\<lparr>experimentalUnsafeOptions_WILL_CHANGE_IN_PATCH := JNull\<rparr>) (workspace [])) =
     Inl TypeError"
  by (simp add: parse_eval)

text \<open>
  C2. A falsy \<^verbatim>\<open>ignore\<close> is not reported. With \<^verbatim>\<open>ignore: false\<close> and
  nothing else, \<open>parse\<close> pushes no message, makes no call, and returns a configuration
  whose \<^verbatim>\<open>ignore\<close> is \<^verbatim>\<open>false\<close>: line 156 tests the truthiness of the
  value, where line 98 (for \<^verbatim>\<open>linked\<close>) and line 259 test it against
  \<^verbatim>\<open>undefined\<close>.
\<close>

theorem falsy_ignore_accepted:
  "parse stringify getDependentsGraph packageVersion (no_options\<lparr>ignore := JBool False\<rparr>) pkgs =
     ([], Inr \<lparr> changelog = JArr [JStr ''@changesets/cli/changelog'', JNull],
               commit = JBool False,
               linked = JArr [],
               access = JStr ''restricted'',
               baseBranch = JStr ''master'',
               updateInternalDependencies = JStr ''patch'',
               ignore = JBool False,
               experimentalUnsafeOptions_WILL_CHANGE_IN_PATCH =
                 \<lparr> onlyUpdatePeerDependentsWhenOutOfRange = JBool False,
                   useCalculatedVersionForSnapshots = JBool False \<rparr> \<rparr>)"
  by (simp add: parse_eval)

text \<open>
  C3. For a well-shaped \<^verbatim>\<open>ignore\<close> array, the ignore block pushes the not-found
  messages and then one message for every pair of an ignored package and a dependent
  of it that is not ignored, in loop order and without merging: the pairs are those of
  \<open>missing_dependents\<close>, as many as the two loops meet. For such a pair
  \<open>(P, Q)\<close> the message is among the messages, \<open>parse\<close> fails, and when the
  experimental options are not \<^verbatim>\<open>null\<close> it fails with the aggregated error, whose
  text contains the message. The message has the text of lines 188-190, with \<open>Q\<close>
  and \<open>P\<close> in it. No pair has an ignored package as its dependent, so adding
  \<open>Q\<close> to \<^verbatim>\<open>ignore\<close> removes its pairs; where no name holds a double quote,
  no message with the text for \<open>Q\<close> is left either.
\<close>

theorem missing_dependent_reported:
  assumes \<open>ignore json = JArr (map JStr ignored)\<close>
  shows \<open>ignore_messages stringify getDependentsGraph json pkgs =
           map ignore_not_found_message (filter (\<lambda>n. n \<notin> set (pkgNames pkgs)) ignored) @
           map (\<lambda>(p, d). dependent_message d p)
             (missing_dependents (getDependentsGraph pkgs) ignored) \<and>
         (\<forall>P Q. (P, Q) \<in> set (missing_dependents (getDependentsGraph pkgs) ignored) \<longleftrightarrow>
            P \<in> set ignored \<and> Q \<notin> set ignored \<and>
            (\<exists>dependents. getDependentsGraph pkgs P = Some dependents \<and> Q \<in> set dependents)) \<and>
         length (missing_dependents (getDependentsGraph pkgs) ignored) =
           sum_list (map (\<lambda>P. length (filter (\<lambda>Q. Q \<notin> set ignored)
                                  (dependents_of (getDependentsGraph pkgs) P))) ignored) \<and>
         (\<forall>P Q dependents.
            P \<in> set ignored \<and> getDependentsGraph pkgs P = Some dependents \<and>
            Q \<in> set dependents \<and> Q \<notin> set ignored \<longrightarrow>
            dependent_message Q P \<in> set (ignore_messages stringify getDependentsGraph json pkgs) \<and>
            dependent_message Q P \<in>
              set (messages (checks_before_experimental stringify getDependentsGraph json pkgs)) \<and>
            isl (snd (parse stringify getDependentsGraph packageVersion json pkgs)) \<and>
            (experimentalUnsafeOptions_WILL_CHANGE_IN_PATCH json \<noteq> JNull \<longrightarrow>
               (\<exists>ms before after. dependent_message Q P \<in> set ms \<and>
                  snd (parse stringify getDependentsGraph packageVersion json pkgs) =
                    Inl (ValidationError (banner @ join [CHR 0x0A] ms)) \<and>
                  join [CHR 0x0A] ms = before @ dependent_message Q P @ after))) \<and>
         (\<forall>P Q. Q \<in> set ignored \<longrightarrow>
            (P, Q) \<notin> set (missing_dependents (getDependentsGraph pkgs) ignored)) \<and>
         (\<forall>P Q. dependent_message Q P =
            ''The package "'' @ Q @ ''" depends on the ignored package "'' @ P @
            ''", but "'' @ Q @ ''" is not being ignored. Please add "'' @ Q @
            ''" to the `ignore` option.'') \<and>
         (\<forall>P Q. Q \<in> set ignored \<and> CHR 0x22 \<notin> set Q \<and>
            (\<forall>p \<in> set ignored. \<forall>d \<in> set (dependents_of (getDependentsGraph pkgs) p).
               CHR 0x22 \<notin> set d) \<longrightarrow>
            dependent_message Q P \<notin>
              set (ignore_messages stringify getDependentsGraph json pkgs))\<close>
proof -
  let ?dg = "getDependentsGraph pkgs"
  let ?p = "parse stringify getDependentsGraph packageVersion json pkgs"
  let ?before = "messages (checks_before_experimental stringify getDependentsGraph json pkgs)"
  have shape: "string_array (ignore json) = Some ignored"
    using assms by (simp only: string_array_Some)
  have msgs: "ignore_messages stringify getDependentsGraph json pkgs =
           map ignore_not_found_message (filter (\<lambda>n. n \<notin> set (pkgNames pkgs)) ignored) @
           map (\<lambda>(p, d). dependent_message d p) (missing_dependents ?dg ignored)"
    using check_ignore_well_shaped(1) [OF shape, of stringify getDependentsGraph pkgs initial]
    by (simp add: ignore_messages_def)
  have deps: "Q \<in> set (dependents_of ?dg P) \<longleftrightarrow>
      (\<exists>dependents. ?dg P = Some dependents \<and> Q \<in> set dependents)" for P Q
    by (cases "getDependentsGraph pkgs P") (simp_all add: dependents_of_def)
  have pairs: "(P, Q) \<in> set (missing_dependents ?dg ignored) \<longleftrightarrow>
            P \<in> set ignored \<and> Q \<notin> set ignored \<and>
            (\<exists>dependents. ?dg P = Some dependents \<and> Q \<in> set dependents)" for P Q
    unfolding set_missing_dependents deps by blast
  have reported: "dependent_message Q P \<in> set (ignore_messages stringify getDependentsGraph json pkgs) \<and>
            dependent_message Q P \<in> set ?before \<and> isl (snd ?p) \<and>
            (experimentalUnsafeOptions_WILL_CHANGE_IN_PATCH json \<noteq> JNull \<longrightarrow>
               (\<exists>ms before after. dependent_message Q P \<in> set ms \<and>
                  snd ?p = Inl (ValidationError (banner @ join [CHR 0x0A] ms)) \<and>
                  join [CHR 0x0A] ms = before @ dependent_message Q P @ after))"
    if "P \<in> set ignored" "?dg P = Some dependents" "Q \<in> set dependents" "Q \<notin> set ignored"
    for P Q dependents
  proof -
    have "(P, Q) \<in> set (missing_dependents ?dg ignored)"
      using that pairs by blast
    then have "(\<lambda>(p, d). dependent_message d p) (P, Q) \<in>
        set (map (\<lambda>(p, d). dependent_message d p) (missing_dependents ?dg ignored))"
      unfolding set_map by (rule imageI)
    then have 1: "dependent_message Q P \<in> set (ignore_messages stringify getDependentsGraph json pkgs)"
      by (simp add: msgs)
    then have 2: "dependent_message Q P \<in> set ?before"
      by (simp add: checks_before_experimental_messages)
    let ?ms = "?before @ experimental_messages stringify json"
    from 2 have 3: "dependent_message Q P \<in> set ?ms"
      by simp
    then have 4: "?ms \<noteq> []"
      by force
    then have 5: "isl (snd ?p)"
      by (simp add: parse_result)
    obtain before after where 6: "join [CHR 0x0A] ?ms = before @ dependent_message Q P @ after"
      using join_contains [OF 3] by blast
    have "snd ?p = Inl (ValidationError (banner @ join [CHR 0x0A] ?ms))"
      if "experimentalUnsafeOptions_WILL_CHANGE_IN_PATCH json \<noteq> JNull"
      using that 4 by (simp add: parse_result)
    with 3 6 have "experimentalUnsafeOptions_WILL_CHANGE_IN_PATCH json \<noteq> JNull \<longrightarrow>
               (\<exists>ms before after. dependent_message Q P \<in> set ms \<and>
                  snd ?p = Inl (ValidationError (banner @ join [CHR 0x0A] ms)) \<and>
                  join [CHR 0x0A] ms = before @ dependent_message Q P @ after)"
      by blast
    with 1 2 5 show ?thesis
      by (intro conjI)
  qed
  have wording: \<open>dependent_message Q P =
            ''The package "'' @ Q @ ''" depends on the ignored package "'' @ P @
            ''", but "'' @ Q @ ''" is not being ignored. Please add "'' @ Q @
            ''" to the `ignore` option.''\<close> for P Q
    by (simp add: dependent_message_def)
  have gone: "dependent_message Q P \<notin> set (ignore_messages stringify getDependentsGraph json pkgs)"
    if "Q \<in> set ignored" "CHR 0x22 \<notin> set Q"
      "\<forall>p \<in> set ignored. \<forall>d \<in> set (dependents_of ?dg p). CHR 0x22 \<notin> set d" for P Q
  proof
    assume "dependent_message Q P \<in> set (ignore_messages stringify getDependentsGraph json pkgs)"
    then consider n where "dependent_message Q P = ignore_not_found_message n"
      | p d where "(p, d) \<in> set (missing_dependents ?dg ignored)"
          "dependent_message Q P = dependent_message d p"
      unfolding msgs by auto
    then show False
    proof cases
      case 1
      then show ?thesis
        using not_found_is_not_dependent [of n Q P] by simp
    next
      case 2
      from 2(1) have "p \<in> set ignored" "d \<in> set (dependents_of ?dg p)" "d \<notin> set ignored"
        by (simp_all add: set_missing_dependents)
      with that(3) have "CHR 0x22 \<notin> set d"
        by blast
      with 2(2) that(2) have "Q = d"
        by (rule dependent_message_dependent)
      with \<open>d \<notin> set ignored\<close> that(1) show ?thesis
        by simp
    qed
  qed
  have none: "(P, Q) \<notin> set (missing_dependents ?dg ignored)" if "Q \<in> set ignored" for P Q
    using that pairs by blast
  show ?thesis
    apply (intro conjI allI impI)
          apply (rule msgs)
         apply (rule pairs)
        apply (rule length_missing_dependents)
       apply (elim conjE, rule reported [THEN conjunct1], assumption+)
      apply (elim conjE, rule reported [THEN conjunct2, THEN conjunct1], assumption+)
     apply (elim conjE, rule reported [THEN conjunct2, THEN conjunct2, THEN conjunct1], assumption+)
    apply (elim conjE, rule reported [THEN conjunct2, THEN conjunct2, THEN conjunct2, rule_format], assumption+)
      apply (erule none)
     apply (rule wording)
    apply (elim conjE, rule gone, assumption+)
    done
qed

text \<open>
  Two ignored packages with the same dependent give two messages; with the dependent
  ignored too, none.
\<close>

theorem missing_dependent_reported_witness:
  "ignore (no_options\<lparr>ignore := JArr [JStr ''pkg-a'', JStr ''pkg-b'']\<rparr>) =
     JArr (map JStr [''pkg-a'', ''pkg-b'']) \<and>
   ''pkg-a'' \<in> set [''pkg-a'', ''pkg-b''] \<and>
   shared_dependent (workspace [''pkg-a'', ''pkg-b'', ''pkg-c'']) ''pkg-a'' = Some [''pkg-c''] \<and>
   ''pkg-c'' \<in> set [''pkg-c''] \<and> ''pkg-c'' \<notin> set [''pkg-a'', ''pkg-b''] \<and>
   experimentalUnsafeOptions_WILL_CHANGE_IN_PATCH
     (no_options\<lparr>ignore := JArr [JStr ''pkg-a'', JStr ''pkg-b'']\<rparr>) \<noteq> JNull \<and>
   dependent_message ''pkg-c'' ''pkg-a'' \<in>
     set (ignore_messages example_stringify shared_dependent
            (no_options\<lparr>ignore := JArr [JStr ''pkg-a'', JStr ''pkg-b'']\<rparr>)
            (workspace [''pkg-a'', ''pkg-b'', ''pkg-c''])) \<and>
   (\<exists>ms before after.
      dependent_message ''pkg-c'' ''pkg-a'' \<in> set ms \<and>
      snd (parse example_stringify shared_dependent ''1.0.0''
             (no_options\<lparr>ignore := JArr [JStr ''pkg-a'', JStr ''pkg-b'']\<rparr>)
             (workspace [''pkg-a'', ''pkg-b'', ''pkg-c''])) =
        Inl (ValidationError (banner @ join [CHR 0x0A] ms)) \<and>
      join [CHR 0x0A] ms = before @ dependent_message ''pkg-c'' ''pkg-a'' @ after) \<and>
   ignore_messages example_stringify shared_dependent
     (no_options\<lparr>ignore := JArr [JStr ''pkg-a'', JStr ''pkg-b'']\<rparr>)
     (workspace [''pkg-a'', ''pkg-b'', ''pkg-c'']) =
     [dependent_message ''pkg-c'' ''pkg-a'', dependent_message ''pkg-c'' ''pkg-b''] \<and>
   snd (parse example_stringify shared_dependent ''1.0.0''
          (no_options\<lparr>ignore := JArr [JStr ''pkg-a'', JStr ''pkg-b'']\<rparr>)
          (workspace [''pkg-a'', ''pkg-b'', ''pkg-c''])) =
     Inl (ValidationError
            (banner @ dependent_message ''pkg-c'' ''pkg-a'' @ [CHR 0x0A] @
             dependent_message ''pkg-c'' ''pkg-b'')) \<and>
   ignore (no_options\<lparr>ignore := JArr [JStr ''pkg-a'', JStr ''pkg-b'', JStr ''pkg-c'']\<rparr>) =
     JArr (map JStr [''pkg-a'', ''pkg-b'', ''pkg-c'']) \<and>
   ''pkg-c'' \<in> set [''pkg-a'', ''pkg-b'', ''pkg-c''] \<and> CHR 0x22 \<notin> set ''pkg-c'' \<and>
   dependents_of (shared_dependent (workspace [''pkg-a'', ''pkg-b'', ''pkg-c''])) ''pkg-a'' =
     [''pkg-c''] \<and>
   dependents_of (shared_dependent (workspace [''pkg-a'', ''pkg-b'', ''pkg-c''])) ''pkg-b'' =
     [''pkg-c''] \<and>
   dependents_of (shared_dependent (workspace [''pkg-a'', ''pkg-b'', ''pkg-c''])) ''pkg-c'' = [] \<and>
   dependent_message ''pkg-c'' ''pkg-a'' \<notin>
     set (ignore_messages example_stringify shared_dependent
            (no_options\<lparr>ignore := JArr [JStr ''pkg-a'', JStr ''pkg-b'', JStr ''pkg-c'']\<rparr>)
            (workspace [''pkg-a'', ''pkg-b'', ''pkg-c''])) \<and>
   ignore_messages example_stringify shared_dependent
     (no_options\<lparr>ignore := JArr [JStr ''pkg-a'', JStr ''pkg-b'', JStr ''pkg-c'']\<rparr>)
     (workspace [''pkg-a'', ''pkg-b'', ''pkg-c'']) = []"
proof -
  let ?json = "no_options\<lparr>ignore := JArr [JStr ''pkg-a'', JStr ''pkg-b'']\<rparr>"
  let ?fixed = "no_options\<lparr>ignore := JArr [JStr ''pkg-a'', JStr ''pkg-b'', JStr ''pkg-c'']\<rparr>"
  let ?pkgs = "workspace [''pkg-a'', ''pkg-b'', ''pkg-c'']"
  have shape: "ignore ?json = JArr (map JStr [''pkg-a'', ''pkg-b''])"
    by (simp add: no_options_def)
  have shape': "ignore ?fixed = JArr (map JStr [''pkg-a'', ''pkg-b'', ''pkg-c''])"
    by (simp add: no_options_def)
  have graph: "shared_dependent ?pkgs ''pkg-a'' = Some [''pkg-c'']"
    by (simp add: shared_dependent_def)
  have notnull: "experimentalUnsafeOptions_WILL_CHANGE_IN_PATCH ?json \<noteq> JNull"
    by (simp add: no_options_def)
  have members: "''pkg-a'' \<in> set [''pkg-a'', ''pkg-b'']" "''pkg-c'' \<in> set [''pkg-c'']"
    "''pkg-c'' \<notin> set [''pkg-a'', ''pkg-b'']" "''pkg-c'' \<in> set [''pkg-a'', ''pkg-b'', ''pkg-c'']"
    "CHR 0x22 \<notin> set ''pkg-c''"
    by simp_all
  have plain: "\<forall>p \<in> set [''pkg-a'', ''pkg-b'', ''pkg-c''].
      \<forall>d \<in> set (dependents_of (shared_dependent ?pkgs) p). CHR 0x22 \<notin> set d"
    by (simp add: dependents_of_def shared_dependent_def)
  have deps: "dependents_of (shared_dependent ?pkgs) ''pkg-a'' = [''pkg-c'']"
    "dependents_of (shared_dependent ?pkgs) ''pkg-b'' = [''pkg-c'']"
    "dependents_of (shared_dependent ?pkgs) ''pkg-c'' = []"
    by (simp_all add: dependents_of_def shared_dependent_def)
  have msgs: "ignore_messages example_stringify shared_dependent ?json ?pkgs =
      [dependent_message ''pkg-c'' ''pkg-a'', dependent_message ''pkg-c'' ''pkg-b'']"
    by (simp add: ignore_messages_def check_ignore_def no_options_def initial_def
        ignore_found_loop_def ignore_dependents_loop_def dependents_of_def shared_dependent_def
        pkgNames_def workspace_def set_add_def push_def emit_def)
  have fixed: "ignore_messages example_stringify shared_dependent ?fixed ?pkgs = []"
    by (simp add: ignore_messages_def check_ignore_def no_options_def initial_def
        ignore_found_loop_def ignore_dependents_loop_def dependents_of_def shared_dependent_def
        pkgNames_def workspace_def set_add_def push_def emit_def)
  have run: "snd (parse example_stringify shared_dependent ''1.0.0'' ?json ?pkgs) =
     Inl (ValidationError
            (banner @ dependent_message ''pkg-c'' ''pkg-a'' @ [CHR 0x0A] @
             dependent_message ''pkg-c'' ''pkg-b''))"
    by (simp add: parse_result checks_before_experimental_messages msgs no_messages_undefined
        no_options_fields)
  note reported = missing_dependent_reported [OF shape, of example_stringify shared_dependent
      ?pkgs "''1.0.0''", THEN conjunct2, THEN conjunct2, THEN conjunct2, THEN conjunct1,
      rule_format, of "''pkg-a''" "[''pkg-c'']" "''pkg-c''"]
  have all: "''pkg-a'' \<in> set [''pkg-a'', ''pkg-b''] \<and>
      shared_dependent ?pkgs ''pkg-a'' = Some [''pkg-c''] \<and>
      ''pkg-c'' \<in> set [''pkg-c''] \<and> ''pkg-c'' \<notin> set [''pkg-a'', ''pkg-b'']"
    using members graph by (intro conjI)
  note listed = reported [OF all, THEN conjunct1]
  note thrown = reported [OF all, THEN conjunct2, THEN conjunct2, THEN conjunct2, rule_format,
      OF notnull]
  note gone = missing_dependent_reported [OF shape', of example_stringify shared_dependent
      ?pkgs "''1.0.0''", THEN conjunct2, THEN conjunct2, THEN conjunct2, THEN conjunct2,
      THEN conjunct2, THEN conjunct2, rule_format, of "''pkg-c''" "''pkg-a''"]
  have gone': "dependent_message ''pkg-c'' ''pkg-a'' \<notin>
      set (ignore_messages example_stringify shared_dependent ?fixed ?pkgs)"
    using members(4,5) plain by (intro gone conjI)
  show ?thesis
    using shape members(1) graph members(2,3) notnull listed thrown msgs run shape'
      members(4,5) deps gone' fixed
    by (intro conjI)
qed

text \<open>
  With \<^verbatim>\<open>null\<close> for the experimental options, \<^verbatim>\<open>pkg-a\<close> ignored and its
  dependent \<^verbatim>\<open>pkg-c\<close> not, \<open>parse\<close> throws the \<^verbatim>\<open>TypeError\<close> of lines
  198-201: the message is pushed and never reported.
\<close>

theorem missing_dependent_null_experimental_options:
  "ignore (no_options\<lparr>ignore := JArr [JStr ''pkg-a''],
                      experimentalUnsafeOptions_WILL_CHANGE_IN_PATCH := JNull\<rparr>) =
     JArr (map JStr [''pkg-a'']) \<and>
   ''pkg-a'' \<in> set [''pkg-a''] \<and>
   shared_dependent (workspace [''pkg-a'', ''pkg-c'']) ''pkg-a'' = Some [''pkg-c''] \<and>
   ''pkg-c'' \<in> set [''pkg-c''] \<and> ''pkg-c'' \<notin> set [''pkg-a''] \<and>
   parse example_stringify shared_dependent ''1.0.0''
     (no_options\<lparr>ignore := JArr [JStr ''pkg-a''],
                  experimentalUnsafeOptions_WILL_CHANGE_IN_PATCH := JNull\<rparr>)
     (workspace [''pkg-a'', ''pkg-c'']) =
     ([GetDependentsGraph (workspace [''pkg-a'', ''pkg-c''])], Inl TypeError)"
  by (simp add: parse_eval shared_dependent_def ignore_found_loop_def ignore_dependents_loop_def
      dependents_of_def pkgNames_def workspace_def set_add_def)



text \<open>
  C5. With \<^verbatim>\<open>access = "private"\<close>, \<open>parse\<close> warns exactly once whatever the
  other fields hold, the access check pushes no message, a returned configuration has
  \<^verbatim>\<open>access = "restricted"\<close>, and \<open>parse\<close> does return one when no other
  check pushes a message (and the experimental options are not \<^verbatim>\<open>null\<close>). With any
  other string outside \<^verbatim>\<open>"public"\<close> and \<^verbatim>\<open>"restricted"\<close>, the access
  check pushes its message, \<open>parse\<close> fails, there is no warning, and when the
  experimental options are not \<^verbatim>\<open>null\<close> the failure is the aggregated error with
  that message.
\<close>

theorem private_access_rewritten:
  "(access json = JStr ''private'' \<longrightarrow>
      filter is_warning (fst (parse stringify getDependentsGraph packageVersion json pkgs)) =
        [Warn access_warning] \<and>
      access_messages stringify json = [] \<and>
      (\<forall>cfg. snd (parse stringify getDependentsGraph packageVersion json pkgs) = Inr cfg \<longrightarrow>
         access cfg = JStr ''restricted'') \<and>
      (changelog_messages stringify json = [] \<and> commit_messages stringify json = [] \<and>
       baseBranch_messages stringify json = [] \<and> linked_messages stringify json pkgs = [] \<and>
       updateInternalDependencies_messages stringify json = [] \<and>
       ignore_messages stringify getDependentsGraph json pkgs = [] \<and>
       experimental_messages stringify json = [] \<and>
       experimentalUnsafeOptions_WILL_CHANGE_IN_PATCH json \<noteq> JNull \<longrightarrow>
       (\<exists>cfg. snd (parse stringify getDependentsGraph packageVersion json pkgs) = Inr cfg \<and>
          access cfg = JStr ''restricted''))) \<and>
   (\<forall>a. access json = JStr a \<and> a \<notin> {''private'', ''public'', ''restricted''} \<longrightarrow>
      access_messages stringify json = [access_message stringify (JStr a)] \<and>
      access_message stringify (JStr a) \<in>
        set (messages (checks_before_experimental stringify getDependentsGraph json pkgs)) \<and>
      isl (snd (parse stringify getDependentsGraph packageVersion json pkgs)) \<and>
      (experimentalUnsafeOptions_WILL_CHANGE_IN_PATCH json \<noteq> JNull \<longrightarrow>
         (\<exists>ms. access_message stringify (JStr a) \<in> set ms \<and>
            snd (parse stringify getDependentsGraph packageVersion json pkgs) =
              Inl (ValidationError (banner @ join [CHR 0x0A] ms)))) \<and>
      filter is_warning (fst (parse stringify getDependentsGraph packageVersion json pkgs)) = [])"
proof -
  let ?p = "parse stringify getDependentsGraph packageVersion json pkgs"
  let ?before = "messages (checks_before_experimental stringify getDependentsGraph json pkgs)"
  have warned: "filter is_warning (fst ?p) =
      (if access json = JStr ''private'' then [Warn access_warning] else [])"
    by (simp add: parse_effects checks_before_experimental_effects)
  have restricted: "access cfg = JStr ''restricted''"
    if "access json = JStr ''private''" "snd ?p = Inr cfg" for cfg
    using assemble_fields(4) [OF parse_Inr_assemble [OF that(2)]] that(1)
    by (simp add: normalizedAccess_def)
  have quiet: "access_messages stringify json = []" if "access json = JStr ''private''"
    using that by (simp add: access_messages_def check_access_def normalizedAccess_def)
  have succeeds: "\<exists>cfg. snd ?p = Inr cfg \<and> access cfg = JStr ''restricted''"
    if "access json = JStr ''private''"
      and "changelog_messages stringify json = []" "commit_messages stringify json = []"
      "baseBranch_messages stringify json = []" "linked_messages stringify json pkgs = []"
      "updateInternalDependencies_messages stringify json = []"
      "ignore_messages stringify getDependentsGraph json pkgs = []"
      "experimental_messages stringify json = []"
      and notnull: "experimentalUnsafeOptions_WILL_CHANGE_IN_PATCH json \<noteq> JNull"
  proof -
    have "?before @ experimental_messages stringify json = []"
      using that quiet by (simp add: checks_before_experimental_messages)
    then have "snd ?p = assemble (defaultWrittenConfig packageVersion) json"
      using notnull by (simp add: parse_result)
    with assemble_Inr [OF notnull] obtain cfg where "snd ?p = Inr cfg"
      by metis
    with restricted that(1) show ?thesis
      by blast
  qed
  have other: "access_messages stringify json = [access_message stringify (JStr a)]"
    if "access json = JStr a" "a \<notin> {''private'', ''public'', ''restricted''}" for a
    using that by (simp add: access_messages_def check_access_def normalizedAccess_def)
  have listed: "access_message stringify (JStr a) \<in> set ?before"
    if "access json = JStr a" "a \<notin> {''private'', ''public'', ''restricted''}" for a
    using other [OF that] by (simp add: checks_before_experimental_messages)
  have fails: "isl (snd ?p)"
    if "access json = JStr a" "a \<notin> {''private'', ''public'', ''restricted''}" for a
    using listed [OF that] by (auto simp: parse_result)
  have reported: "\<exists>ms. access_message stringify (JStr a) \<in> set ms \<and>
            snd ?p = Inl (ValidationError (banner @ join [CHR 0x0A] ms))"
    if "access json = JStr a" "a \<notin> {''private'', ''public'', ''restricted''}"
      "experimentalUnsafeOptions_WILL_CHANGE_IN_PATCH json \<noteq> JNull" for a
  proof -
    let ?ms = "?before @ experimental_messages stringify json"
    have "access_message stringify (JStr a) \<in> set ?ms"
      using listed [OF that(1,2)] by simp
    moreover from this have "?ms \<noteq> []"
      by force
    then have "snd ?p = Inl (ValidationError (banner @ join [CHR 0x0A] ?ms))"
      using that(3) by (simp add: parse_result)
    ultimately show ?thesis
      by blast
  qed
  have silent: "filter is_warning (fst ?p) = []"
    if "access json = JStr a" "a \<notin> {''private'', ''public'', ''restricted''}" for a
    using that warned by auto
  show ?thesis
    using warned restricted quiet succeeds other listed fails reported silent
    by (intro conjI impI allI; (elim conjE)?; simp; blast?)
qed

theorem private_access_rewritten_witness:
  "access (no_options\<lparr>access := JStr ''private''\<rparr>) = JStr ''private'' \<and>
   parse example_stringify no_dependents ''1.0.0'' (no_options\<lparr>access := JStr ''private''\<rparr>)
       (workspace []) =
     ([Warn access_warning],
      Inr \<lparr> changelog = JArr [JStr ''@changesets/cli/changelog'', JNull],
            commit = JBool False,
            linked = JArr [],
            access = JStr ''restricted'',
            baseBranch = JStr ''master'',
            updateInternalDependencies = JStr ''patch'',
            ignore = JArr [],
            experimentalUnsafeOptions_WILL_CHANGE_IN_PATCH =
              \<lparr> onlyUpdatePeerDependentsWhenOutOfRange = JBool False,
                useCalculatedVersionForSnapshots = JBool False \<rparr> \<rparr>) \<and>
   filter is_warning
     (fst (parse example_stringify no_dependents ''1.0.0''
             (no_options\<lparr>access := JStr ''private''\<rparr>) (workspace []))) = [Warn access_warning] \<and>
   access (no_options\<lparr>access := JStr ''open''\<rparr>) = JStr ''open'' \<and>
   ''open'' \<notin> {''private'', ''public'', ''restricted''} \<and>
   parse example_stringify no_dependents ''1.0.0'' (no_options\<lparr>access := JStr ''open''\<rparr>)
       (workspace []) =
     ([], Inl (ValidationError (banner @ access_message example_stringify (JStr ''open'')))) \<and>
   filter is_warning
     (fst (parse example_stringify no_dependents ''1.0.0''
             (no_options\<lparr>access := JStr ''open''\<rparr>) (workspace []))) = []"
proof -
  let ?private = "no_options\<lparr>access := JStr ''private''\<rparr>"
  let ?other = "no_options\<lparr>access := JStr ''open''\<rparr>"
  have h1: "access ?private = JStr ''private''"
    by (simp add: no_options_def)
  have h2: "access ?other = JStr ''open'' \<and> ''open'' \<notin> {''private'', ''public'', ''restricted''}"
    by (simp add: no_options_def)
  have run1: "parse example_stringify no_dependents ''1.0.0'' ?private (workspace []) =
     ([Warn access_warning],
      Inr \<lparr> changelog = JArr [JStr ''@changesets/cli/changelog'', JNull],
            commit = JBool False,
            linked = JArr [],
            access = JStr ''restricted'',
            baseBranch = JStr ''master'',
            updateInternalDependencies = JStr ''patch'',
            ignore = JArr [],
            experimentalUnsafeOptions_WILL_CHANGE_IN_PATCH =
              \<lparr> onlyUpdatePeerDependentsWhenOutOfRange = JBool False,
                useCalculatedVersionForSnapshots = JBool False \<rparr> \<rparr>)"
    by (simp add: parse_eval)
  have run2: "parse example_stringify no_dependents ''1.0.0'' ?other (workspace []) =
     ([], Inl (ValidationError (banner @ access_message example_stringify (JStr ''open''))))"
    by (simp add: parse_eval)
  note private_access_rewritten [of ?private example_stringify no_dependents "''1.0.0''"
      "workspace []", THEN conjunct1, rule_format, OF h1, THEN conjunct1]
  then have w1: "filter is_warning
     (fst (parse example_stringify no_dependents ''1.0.0'' ?private (workspace []))) =
     [Warn access_warning]" .
  note private_access_rewritten [of ?other example_stringify no_dependents "''1.0.0''"
      "workspace []", THEN conjunct2, rule_format, OF h2]
  then have w2: "filter is_warning
     (fst (parse example_stringify no_dependents ''1.0.0'' ?other (workspace []))) = []"
    by simp
  from h1 h2 run1 run2 w1 w2 show ?thesis
    by (intro conjI) simp_all
qed

text \<open>
  With \<^verbatim>\<open>null\<close> for the experimental options and \<^verbatim>\<open>access = "open"\<close>,
  \<open>parse\<close> throws the \<^verbatim>\<open>TypeError\<close> of lines 198-201, not an error with the
  access message.
\<close>

theorem invalid_access_null_experimental_options:
  "access (no_options\<lparr>access := JStr ''open'',
                      experimentalUnsafeOptions_WILL_CHANGE_IN_PATCH := JNull\<rparr>) = JStr ''open'' \<and>
   ''open'' \<notin> {''public'', ''restricted''} \<and>
   parse example_stringify no_dependents ''1.0.0''
     (no_options\<lparr>access := JStr ''open'',
                  experimentalUnsafeOptions_WILL_CHANGE_IN_PATCH := JNull\<rparr>)
     (workspace []) = ([], Inl TypeError)"
  by (simp add: parse_eval)

text \<open>
  C6. With every option omitted, \<open>parse\<close> makes no call and returns the defaults,
  for any workspace; \<open>defaultConfig\<close> holds the same configuration.
\<close>

theorem all_omitted_gives_defaults:
  "parse stringify getDependentsGraph packageVersion
     \<lparr> changelog = JUndefined, commit = JUndefined, linked = JUndefined,
       access = JUndefined, baseBranch = JUndefined,
       updateInternalDependencies = JUndefined, ignore = JUndefined,
       experimentalUnsafeOptions_WILL_CHANGE_IN_PATCH = JUndefined, \<dots> = rest \<rparr> pkgs =
   ([], Inr \<lparr> changelog = JArr [JStr ''@changesets/cli/changelog'', JNull],
             commit = JBool False,
             linked = JArr [],
             access = JStr ''restricted'',
             baseBranch = JStr ''master'',
             updateInternalDependencies = JStr ''patch'',
             ignore = JArr [],
             experimentalUnsafeOptions_WILL_CHANGE_IN_PATCH =
               \<lparr> onlyUpdatePeerDependentsWhenOutOfRange = JBool False,
                 useCalculatedVersionForSnapshots = JBool False \<rparr> \<rparr>) \<and>
   snd (defaultConfig stringify getDependentsGraph packageVersion) =
   snd (parse stringify getDependentsGraph packageVersion
     \<lparr> changelog = JUndefined, commit = JUndefined, linked = JUndefined,
       access = JUndefined, baseBranch = JUndefined,
       updateInternalDependencies = JUndefined, ignore = JUndefined,
       experimentalUnsafeOptions_WILL_CHANGE_IN_PATCH = JUndefined, \<dots> = rest \<rparr> pkgs)"
  (is "parse _ _ _ ?json _ = ([], Inr ?cfg) \<and> _")
proof -
  have fst: "fst (parse stringify getDependentsGraph packageVersion ?json pkgs) = []"
    by (simp add: parse_effects checks_before_experimental_effects)
  have "messages (checks_before_experimental stringify getDependentsGraph ?json pkgs) @
          experimental_messages stringify ?json = []"
    by (simp add: checks_before_experimental_messages no_messages_undefined)
  then have snd: "snd (parse stringify getDependentsGraph packageVersion ?json pkgs) = Inr ?cfg"
    by (simp add: parse_result assemble_def flag_or_false_def defaultWrittenConfig_def
        getNormalisedChangelogOption_def normalizedAccess_def)
  let ?d = "defaultWrittenConfig packageVersion"
  let ?fake = "\<lparr> root = fakePackage, tool = ''root'', packages = [fakePackage] \<rparr>"
  have d_messages: "messages (checks_before_experimental stringify getDependentsGraph ?d ?fake) @
          experimental_messages stringify ?d = []"
    by (simp add: checks_before_experimental_messages defaultWrittenConfig_def
        changelog_messages_def check_changelog_def access_messages_def
        check_access_def normalizedAccess_def commit_messages_def check_commit_def
        baseBranch_messages_def check_baseBranch_def linked_messages_def check_linked_def
        updateInternalDependencies_messages_def check_updateInternalDependencies_def
        ignore_messages_def check_ignore_def experimental_messages_def check_experimental_def
        linked_loop_def ignore_found_loop_def ignore_dependents_loop_def)
  have "snd (defaultConfig stringify getDependentsGraph packageVersion) = Inr ?cfg"
    unfolding defaultConfig_def parse_result
    using d_messages
    by (simp add: assemble_def flag_or_false_def defaultWrittenConfig_def
        getNormalisedChangelogOption_def normalizedAccess_def)
  with fst snd show ?thesis
    by (simp add: prod_eq_iff)
qed

text \<open>
  C7. \<open>getNormalisedChangelogOption\<close> maps \<^verbatim>\<open>false\<close> to \<^verbatim>\<open>false\<close>, a
  string \<open>s\<close> to \<^verbatim>\<open>[s, null]\<close>, and leaves a pair as it is; so does the
  \<^verbatim>\<open>changelog\<close> of any configuration \<open>parse\<close> returns. A document with only
  \<^verbatim>\<open>changelog = s\<close> resolves to \<^verbatim>\<open>[s, null]\<close> and the defaults.
\<close>

theorem changelog_normalised:
  "getNormalisedChangelogOption (JBool False) = JBool False \<and>
   getNormalisedChangelogOption (JStr s) = JArr [JStr s, JNull] \<and>
   getNormalisedChangelogOption (JArr [reference, opts]) = JArr [reference, opts] \<and>
   snd (parse stringify getDependentsGraph packageVersion (no_options\<lparr>changelog := JStr s\<rparr>) pkgs) =
     Inr \<lparr> changelog = JArr [JStr s, JNull],
           commit = JBool False,
           linked = JArr [],
           access = JStr ''restricted'',
           baseBranch = JStr ''master'',
           updateInternalDependencies = JStr ''patch'',
           ignore = JArr [],
           experimentalUnsafeOptions_WILL_CHANGE_IN_PATCH =
             \<lparr> onlyUpdatePeerDependentsWhenOutOfRange = JBool False,
               useCalculatedVersionForSnapshots = JBool False \<rparr> \<rparr> \<and>
   (\<forall>cfg. snd (parse stringify getDependentsGraph packageVersion json pkgs) = Inr cfg \<longrightarrow>
      (changelog json = JBool False \<longrightarrow> changelog cfg = JBool False) \<and>
      (changelog json = JStr s \<longrightarrow> changelog cfg = JArr [JStr s, JNull]) \<and>
      (changelog json = JArr [reference, opts] \<longrightarrow> changelog cfg = JArr [reference, opts]))"
proof -
  have "changelog cfg = getNormalisedChangelogOption (changelog json)"
    if "snd (parse stringify getDependentsGraph packageVersion json pkgs) = Inr cfg"
      and "changelog json \<noteq> JUndefined" for cfg
    using assemble_fields(1) [OF parse_Inr_assemble [OF that(1)]] that(2) by simp
  moreover have "snd (parse stringify getDependentsGraph packageVersion
      (no_options\<lparr>changelog := JStr s\<rparr>) pkgs) =
     Inr \<lparr> changelog = JArr [JStr s, JNull],
           commit = JBool False,
           linked = JArr [],
           access = JStr ''restricted'',
           baseBranch = JStr ''master'',
           updateInternalDependencies = JStr ''patch'',
           ignore = JArr [],
           experimentalUnsafeOptions_WILL_CHANGE_IN_PATCH =
             \<lparr> onlyUpdatePeerDependentsWhenOutOfRange = JBool False,
               useCalculatedVersionForSnapshots = JBool False \<rparr> \<rparr>"
    by (simp add: parse_eval)
  ultimately show ?thesis
    by (auto simp: getNormalisedChangelogOption_def)
qed

theorem changelog_normalised_witness:
  "snd (parse example_stringify no_dependents ''1.0.0''
          (no_options\<lparr>changelog := JStr ''my-generator''\<rparr>)
          (workspace [])) =
     Inr \<lparr> changelog = JArr [JStr ''my-generator'', JNull],
           commit = JBool False,
           linked = JArr [],
           access = JStr ''restricted'',
           baseBranch = JStr ''master'',
           updateInternalDependencies = JStr ''patch'',
           ignore = JArr [],
           experimentalUnsafeOptions_WILL_CHANGE_IN_PATCH =
             \<lparr> onlyUpdatePeerDependentsWhenOutOfRange = JBool False,
               useCalculatedVersionForSnapshots = JBool False \<rparr> \<rparr> \<and>
   changelog (no_options\<lparr>changelog := JStr ''my-generator''\<rparr>) = JStr ''my-generator'' \<and>
   changelog
     \<lparr> changelog = JArr [JStr ''my-generator'', JNull],
       commit = JBool False,
       linked = JArr [],
       access = JStr ''restricted'',
       baseBranch = JStr ''master'',
       updateInternalDependencies = JStr ''patch'',
       ignore = JArr [],
       experimentalUnsafeOptions_WILL_CHANGE_IN_PATCH =
         \<lparr> onlyUpdatePeerDependentsWhenOutOfRange = JBool False,
           useCalculatedVersionForSnapshots = JBool False \<rparr> \<rparr> =
     JArr [JStr ''my-generator'', JNull]"
proof -
  let ?json = "no_options\<lparr>changelog := JStr ''my-generator''\<rparr>"
  let ?pkgs = "workspace []"
  let ?cfg = "\<lparr> changelog = JArr [JStr ''my-generator'', JNull],
           commit = JBool False,
           linked = JArr [],
           access = JStr ''restricted'',
           baseBranch = JStr ''master'',
           updateInternalDependencies = JStr ''patch'',
           ignore = JArr [],
           experimentalUnsafeOptions_WILL_CHANGE_IN_PATCH =
             \<lparr> onlyUpdatePeerDependentsWhenOutOfRange = JBool False,
               useCalculatedVersionForSnapshots = JBool False \<rparr> \<rparr>"
  have run: "snd (parse example_stringify no_dependents ''1.0.0'' ?json ?pkgs) = Inr ?cfg"
    by (simp add: parse_eval)
  have field: "changelog ?json = JStr ''my-generator''"
    by (simp add: no_options_def)
  note changelog_normalised [where s = "''my-generator''" and stringify = example_stringify
      and getDependentsGraph = no_dependents and packageVersion = "''1.0.0''"
      and json = ?json and pkgs = ?pkgs and reference = JNull and opts = JNull,
      THEN conjunct2, THEN conjunct2, THEN conjunct2, THEN conjunct2, rule_format, OF run,
      THEN conjunct2, THEN conjunct1, rule_format, OF field]
  with run field show ?thesis
    by (intro conjI)
qed

text \<open>
  C8. The checks before the experimental options always run, and the list they leave is
  what the changelog, access, commit, baseBranch, linked, updateInternalDependencies and
  ignore blocks push, in that order, each block pushing what it pushes from the empty
  list. When the experimental options are not \<^verbatim>\<open>null\<close>, the checks of the two flags
  run too and their messages come last. Inside the linked block the not-found messages
  come in iteration order, then the duplicates in the order of the set; inside the
  ignore block the not-found messages, then the dependents in loop order.
\<close>

theorem messages_in_field_order:
  "messages (checks_before_experimental stringify getDependentsGraph json pkgs) =
     changelog_messages stringify json @ access_messages stringify json @
     commit_messages stringify json @ baseBranch_messages stringify json @
     linked_messages stringify json pkgs @ updateInternalDependencies_messages stringify json @
     ignore_messages stringify getDependentsGraph json pkgs \<and>
   (experimentalUnsafeOptions_WILL_CHANGE_IN_PATCH json \<noteq> JNull \<longrightarrow>
     (\<exists>s. run_checks stringify getDependentsGraph json pkgs = Inr s \<and>
        messages s =
          changelog_messages stringify json @ access_messages stringify json @
          commit_messages stringify json @ baseBranch_messages stringify json @
          linked_messages stringify json pkgs @ updateInternalDependencies_messages stringify json @
          ignore_messages stringify getDependentsGraph json pkgs @
          experimental_messages stringify json)) \<and>
   (\<forall>groups. linked json = JArr (map (\<lambda>names. JArr (map JStr names)) groups) \<longrightarrow>
      linked_messages stringify json pkgs =
        map linked_not_found_message
          (filter (\<lambda>n. n \<notin> set (pkgNames pkgs)) (concat groups)) @
        map linked_duplicate_message (repeated [] [] (concat groups))) \<and>
   (\<forall>ignored. ignore json = JArr (map JStr ignored) \<longrightarrow>
      ignore_messages stringify getDependentsGraph json pkgs =
        map ignore_not_found_message (filter (\<lambda>n. n \<notin> set (pkgNames pkgs)) ignored) @
        map (\<lambda>(p, d). dependent_message d p)
          (missing_dependents (getDependentsGraph pkgs) ignored))"
proof -
  have "\<exists>s. run_checks stringify getDependentsGraph json pkgs = Inr s \<and>
        messages s =
          messages (checks_before_experimental stringify getDependentsGraph json pkgs) @
          experimental_messages stringify json"
    if "experimentalUnsafeOptions_WILL_CHANGE_IN_PATCH json \<noteq> JNull"
    using run_checks_Inr [OF that] by metis
  moreover have "linked_messages stringify json pkgs =
        map linked_not_found_message
          (filter (\<lambda>n. n \<notin> set (pkgNames pkgs)) (concat groups)) @
        map linked_duplicate_message (repeated [] [] (concat groups))"
    if "linked json = JArr (map (\<lambda>names. JArr (map JStr names)) groups)" for groups
    using check_linked_well_shaped [of json groups stringify pkgs initial] that
    unfolding string_array_array_Some linked_messages_def by simp
  moreover have "ignore_messages stringify getDependentsGraph json pkgs =
        map ignore_not_found_message (filter (\<lambda>n. n \<notin> set (pkgNames pkgs)) ignored) @
        map (\<lambda>(p, d). dependent_message d p)
          (missing_dependents (getDependentsGraph pkgs) ignored)"
    if "ignore json = JArr (map JStr ignored)" for ignored
    using check_ignore_well_shaped(1) [of json ignored stringify getDependentsGraph pkgs initial] that
    unfolding string_array_Some ignore_messages_def by simp
  ultimately show ?thesis
    by (simp add: checks_before_experimental_messages)
qed

theorem messages_in_field_order_witness:
  "experimentalUnsafeOptions_WILL_CHANGE_IN_PATCH faulty_document \<noteq> JNull \<and>
   linked faulty_document = JArr (map (\<lambda>names. JArr (map JStr names)) [[''pkg-x'', ''pkg-x'']]) \<and>
   ignore faulty_document = JArr (map JStr [''pkg-a'']) \<and>
   (\<exists>s. run_checks example_stringify shared_dependent faulty_document
          (workspace [''pkg-a'', ''pkg-b'', ''pkg-c'']) = Inr s \<and>
        messages s =
          [changelog_message example_stringify (JNum 1),
           access_message example_stringify (JStr ''open''),
           commit_message example_stringify (JStr ''yes''),
           baseBranch_message example_stringify (JNum 2),
           linked_not_found_message ''pkg-x'',
           linked_not_found_message ''pkg-x'',
           linked_duplicate_message ''pkg-x'',
           updateInternalDependencies_message example_stringify (JStr ''major''),
           dependent_message ''pkg-c'' ''pkg-a'',
           useCalculatedVersionForSnapshots_message example_stringify (JNum 1)])"
proof -
  let ?pkgs = "workspace [''pkg-a'', ''pkg-b'', ''pkg-c'']"
  have notnull: "experimentalUnsafeOptions_WILL_CHANGE_IN_PATCH faulty_document \<noteq> JNull"
    by (simp add: faulty_document_def)
  have linked: "linked faulty_document =
      JArr (map (\<lambda>names. JArr (map JStr names)) [[''pkg-x'', ''pkg-x'']])"
    by (simp add: faulty_document_def)
  have ignore: "ignore faulty_document = JArr (map JStr [''pkg-a''])"
    by (simp add: faulty_document_def)
  note order = messages_in_field_order [of example_stringify shared_dependent faulty_document ?pkgs]
  note all = order [THEN conjunct2, THEN conjunct1, rule_format, OF notnull]
  note in_linked = order [THEN conjunct2, THEN conjunct2, THEN conjunct1, rule_format, OF linked]
  note in_ignore = order [THEN conjunct2, THEN conjunct2, THEN conjunct2, rule_format, OF ignore]
  have 1: "changelog_messages example_stringify faulty_document =
      [changelog_message example_stringify (JNum 1)]"
    by (simp add: changelog_messages_def check_changelog_def faulty_document_def)
  have 2: "access_messages example_stringify faulty_document =
      [access_message example_stringify (JStr ''open'')]"
    by (simp add: access_messages_def check_access_def normalizedAccess_def faulty_document_def)
  have 3: "commit_messages example_stringify faulty_document =
      [commit_message example_stringify (JStr ''yes'')]"
    by (simp add: commit_messages_def check_commit_def faulty_document_def)
  have 4: "baseBranch_messages example_stringify faulty_document =
      [baseBranch_message example_stringify (JNum 2)]"
    by (simp add: baseBranch_messages_def check_baseBranch_def faulty_document_def)
  have 5: "linked_messages example_stringify faulty_document ?pkgs =
      [linked_not_found_message ''pkg-x'', linked_not_found_message ''pkg-x'',
       linked_duplicate_message ''pkg-x'']"
    unfolding in_linked by (simp add: pkgNames_def workspace_def set_add_def)
  have 6: "updateInternalDependencies_messages example_stringify faulty_document =
      [updateInternalDependencies_message example_stringify (JStr ''major'')]"
    by (simp add: updateInternalDependencies_messages_def check_updateInternalDependencies_def
        faulty_document_def)
  have 7: "ignore_messages example_stringify shared_dependent faulty_document ?pkgs =
      [dependent_message ''pkg-c'' ''pkg-a'']"
    unfolding in_ignore
    by (simp add: pkgNames_def workspace_def set_add_def missing_dependents_def
        dependents_of_def shared_dependent_def)
  have 8: "experimental_messages example_stringify faulty_document =
      [useCalculatedVersionForSnapshots_message example_stringify (JNum 1)]"
    by (simp add: experimental_messages_def check_experimental_def faulty_document_def)
  from all have "\<exists>s. run_checks example_stringify shared_dependent faulty_document ?pkgs = Inr s \<and>
        messages s =
          [changelog_message example_stringify (JNum 1),
           access_message example_stringify (JStr ''open''),
           commit_message example_stringify (JStr ''yes''),
           baseBranch_message example_stringify (JNum 2),
           linked_not_found_message ''pkg-x'',
           linked_not_found_message ''pkg-x'',
           linked_duplicate_message ''pkg-x'',
           updateInternalDependencies_message example_stringify (JStr ''major''),
           dependent_message ''pkg-c'' ''pkg-a'',
           useCalculatedVersionForSnapshots_message example_stringify (JNum 1)]"
    unfolding 1 2 3 4 5 6 7 8 by simp
  with notnull linked ignore show ?thesis
    by (intro conjI)
qed

text \<open>
  With \<^verbatim>\<open>null\<close> for the experimental options the checks of the two flags do not run
  and no message list results, although the commit check has pushed its message.
\<close>

theorem null_experimental_options_stops_checks:
  "messages (checks_before_experimental example_stringify no_dependents
      (no_options\<lparr>commit := JNum 1, experimentalUnsafeOptions_WILL_CHANGE_IN_PATCH := JNull\<rparr>)
      (workspace [])) = [commit_message example_stringify (JNum 1)] \<and>
   run_checks example_stringify no_dependents
      (no_options\<lparr>commit := JNum 1, experimentalUnsafeOptions_WILL_CHANGE_IN_PATCH := JNull\<rparr>)
      (workspace []) = Inl TypeError"
  by (simp add: parse_eval)



text \<open>
  C10. When \<^verbatim>\<open>ignore\<close> is \<^verbatim>\<open>false\<close>, \<^verbatim>\<open>0\<close>, the empty string or
  \<^verbatim>\<open>null\<close>, the ignore block leaves the state as it is (no message, no call),
  \<open>parse\<close> never calls \<^verbatim>\<open>getDependentsGraph\<close> and does not depend on it, and a
  returned configuration has that very value as its \<^verbatim>\<open>ignore\<close>.
\<close>

theorem falsy_ignore_not_validated:
  assumes "ignore json \<in> {JBool False, JNum 0, JStr [], JNull}"
  shows "check_ignore stringify getDependentsGraph json pkgs s = s \<and>
         ignore_messages stringify getDependentsGraph json pkgs = [] \<and>
         filter is_graph_call (fst (parse stringify getDependentsGraph packageVersion json pkgs)) = [] \<and>
         parse stringify getDependentsGraph packageVersion json pkgs =
           parse stringify otherGraph packageVersion json pkgs \<and>
         (\<forall>cfg. snd (parse stringify getDependentsGraph packageVersion json pkgs) = Inr cfg \<longrightarrow>
            ignore cfg = ignore json)"
proof -
  from assms have falsy: "\<not> truthy (ignore json)" and defined: "ignore json \<noteq> JUndefined"
    by auto
  have skip: "check_ignore stringify g json pkgs t = t" for g t
    using falsy by (simp add: check_ignore_def)
  have same: "checks_before_experimental stringify getDependentsGraph json pkgs =
      checks_before_experimental stringify otherGraph json pkgs"
    by (simp add: checks_before_experimental_def skip)
  have "parse stringify getDependentsGraph packageVersion json pkgs =
           parse stringify otherGraph packageVersion json pkgs"
    unfolding parse_def run_checks_def same ..
  moreover have "filter is_graph_call
      (fst (parse stringify getDependentsGraph packageVersion json pkgs)) = []"
    using falsy by (simp add: parse_effects checks_before_experimental_effects)
  moreover have "ignore cfg = ignore json"
    if "snd (parse stringify getDependentsGraph packageVersion json pkgs) = Inr cfg" for cfg
    using assemble_fields(7) [OF parse_Inr_assemble [OF that]] defined by simp
  ultimately show ?thesis
    using skip falsy by (simp add: no_messages_undefined)
qed

theorem falsy_ignore_not_validated_witness:
  "ignore (no_options\<lparr>ignore := JNum 0\<rparr>) \<in> {JBool False, JNum 0, JStr [], JNull} \<and>
   parse example_stringify no_dependents ''1.0.0'' (no_options\<lparr>ignore := JNum 0\<rparr>)
       (workspace [''pkg-a'']) =
     ([], Inr \<lparr> changelog = JArr [JStr ''@changesets/cli/changelog'', JNull],
               commit = JBool False,
               linked = JArr [],
               access = JStr ''restricted'',
               baseBranch = JStr ''master'',
               updateInternalDependencies = JStr ''patch'',
               ignore = JNum 0,
               experimentalUnsafeOptions_WILL_CHANGE_IN_PATCH =
                 \<lparr> onlyUpdatePeerDependentsWhenOutOfRange = JBool False,
                   useCalculatedVersionForSnapshots = JBool False \<rparr> \<rparr>) \<and>
   ignore_messages example_stringify no_dependents (no_options\<lparr>ignore := JNum 0\<rparr>)
       (workspace [''pkg-a'']) = []"
proof -
  let ?json = "no_options\<lparr>ignore := JNum 0\<rparr>"
  have h: "ignore ?json \<in> {JBool False, JNum 0, JStr [], JNull}"
    by (simp add: no_options_def)
  have run: "parse example_stringify no_dependents ''1.0.0'' ?json (workspace [''pkg-a'']) =
     ([], Inr \<lparr> changelog = JArr [JStr ''@changesets/cli/changelog'', JNull],
               commit = JBool False,
               linked = JArr [],
               access = JStr ''restricted'',
               baseBranch = JStr ''master'',
               updateInternalDependencies = JStr ''patch'',
               ignore = JNum 0,
               experimentalUnsafeOptions_WILL_CHANGE_IN_PATCH =
                 \<lparr> onlyUpdatePeerDependentsWhenOutOfRange = JBool False,
                   useCalculatedVersionForSnapshots = JBool False \<rparr> \<rparr>)"
    by (simp add: parse_eval)
  from falsy_ignore_not_validated [OF h, of example_stringify no_dependents "workspace [''pkg-a'']"]
  have "ignore_messages example_stringify no_dependents ?json (workspace [''pkg-a'']) = []"
    by blast
  with h run show ?thesis
    by blast
qed

end
